theory Spec2Isabelle
  imports
    Main
    "HOL-Library.Char_ord"
    "HOL-Library.List_Lexorder"
    "HOL-Library.Sublist"
    "HOL-Library.AList"
begin

section \<open>Python strings\<close>

text \<open>
  Strings are byte lists. Python compares \<open>str\<close> values by code point; on UTF-8 bytes
  that is the lexicographic order of the byte lists, which \<open>Char_ord\<close> and
  \<open>List_Lexorder\<close> provide.
\<close>

text \<open>\<open>s.split(c)\<close> for a one-character separator: never empty, keeps empty fields.\<close>

fun split_on :: "char \<Rightarrow> string \<Rightarrow> string list" where
  "split_on c [] = [[]]"
| "split_on c (x # xs) =
     (if x = c then [] # split_on c xs
      else (case split_on c xs of [] \<Rightarrow> [[x]] | y # ys \<Rightarrow> (x # y) # ys))"

text \<open>\<open>sub in s\<close>: \<open>sub\<close> occurs in \<open>s\<close> as a contiguous substring.\<close>

fun str_in :: "string \<Rightarrow> string \<Rightarrow> bool" where
  "str_in sub [] = (sub = [])"
| "str_in sub (x # xs) = (prefix sub (x # xs) \<or> str_in sub xs)"

text \<open>
  \<open>s.strip()\<close> removes leading and trailing whitespace. The ASCII characters for which
  \<open>str.isspace\<close> holds are tab, line feed, vertical tab, form feed, carriage return,
  the four separators 0x1C..0x1F and the space. Beyond ASCII it holds for U+0085,
  U+00A0, U+1680, U+2000 to U+200A, U+2028, U+2029, U+202F, U+205F and U+3000, which
  are two or three bytes in UTF-8.
\<close>

definition is_space :: "char \<Rightarrow> bool" where
  "is_space c = (c \<in> set [CHR 0x09, CHR 0x0A, CHR 0x0B, CHR 0x0C, CHR 0x0D,
                           CHR 0x1C, CHR 0x1D, CHR 0x1E, CHR 0x1F, CHR 0x20])"

definition space2 :: "string list" where
  "space2 = [[CHR 0xC2, CHR 0x85], [CHR 0xC2, CHR 0xA0]]"

definition space3 :: "string list" where
  "space3 = [[CHR 0xE1, CHR 0x9A, CHR 0x80],
             [CHR 0xE2, CHR 0x80, CHR 0x80], [CHR 0xE2, CHR 0x80, CHR 0x81],
             [CHR 0xE2, CHR 0x80, CHR 0x82], [CHR 0xE2, CHR 0x80, CHR 0x83],
             [CHR 0xE2, CHR 0x80, CHR 0x84], [CHR 0xE2, CHR 0x80, CHR 0x85],
             [CHR 0xE2, CHR 0x80, CHR 0x86], [CHR 0xE2, CHR 0x80, CHR 0x87],
             [CHR 0xE2, CHR 0x80, CHR 0x88], [CHR 0xE2, CHR 0x80, CHR 0x89],
             [CHR 0xE2, CHR 0x80, CHR 0x8A], [CHR 0xE2, CHR 0x80, CHR 0xA8],
             [CHR 0xE2, CHR 0x80, CHR 0xA9], [CHR 0xE2, CHR 0x80, CHR 0xAF],
             [CHR 0xE2, CHR 0x81, CHR 0x9F], [CHR 0xE3, CHR 0x80, CHR 0x80]]"

text \<open>
  Whitespace is dropped from the head of a string; \<open>w2\<close> and \<open>w3\<close> are the two-byte and
  three-byte whitespace characters (reversed when the string is).
\<close>

fun drop_spaces :: "string list \<Rightarrow> string list \<Rightarrow> string \<Rightarrow> string" where
  "drop_spaces w2 w3 (a # b # c # s) =
     (if is_space a then drop_spaces w2 w3 (b # c # s)
      else if [a, b] \<in> set w2 then drop_spaces w2 w3 (c # s)
      else if [a, b, c] \<in> set w3 then drop_spaces w2 w3 s
      else a # b # c # s)"
| "drop_spaces w2 w3 [a, b] =
     (if is_space a then drop_spaces w2 w3 [b]
      else if [a, b] \<in> set w2 then []
      else [a, b])"
| "drop_spaces w2 w3 [a] = (if is_space a then [] else [a])"
| "drop_spaces w2 w3 [] = []"

definition strip :: "string \<Rightarrow> string" where
  "strip s = rev (drop_spaces (map rev space2) (map rev space3)
                    (rev (drop_spaces space2 space3 s)))"

text \<open>\<open>sep.join(xs)\<close>.\<close>

fun join :: "string \<Rightarrow> string list \<Rightarrow> string" where
  "join sep [] = []"
| "join sep [x] = x"
| "join sep (x # y # ys) = x @ sep @ join sep (y # ys)"

section \<open>Version resolution (init-download.py, \<open>get_latest_version\<close>)\<close>

text \<open>
  The answer to \<open>requests.get(url, timeout=30)\<close>: the call raises, or it returns a
  response with a status code and a body.
\<close>

datatype get_result = GetRaises | Response nat string

text \<open>\<open>response.raise_for_status()\<close> raises for a status 4xx or 5xx.\<close>

definition raise_for_status :: "nat \<Rightarrow> bool" where
  "raise_for_status st = (400 \<le> st \<and> st < 600)"

text \<open>
  The loop over the listing's lines: a line is kept when it contains
  \<open>areas/<area>/\<close> and \<open>tiles.btrfs.gz\<close>; of a kept line with at least four
  components between slashes, the third one is appended to \<open>versions\<close>.
\<close>

fun collect_versions :: "string \<Rightarrow> string list \<Rightarrow> string list" where
  "collect_versions area [] = []"
| "collect_versions area (line # lines) =
     (if str_in (''areas/'' @ area @ ''/'') line \<and> str_in ''tiles.btrfs.gz'' line
      then (let parts = split_on CHR ''/'' line in
            if length parts \<ge> 4 then parts ! 2 # collect_versions area lines
            else collect_versions area lines)
      else collect_versions area lines)"

text \<open>
  The part of \<open>get_latest_version\<close> after the request: every exception (a failed
  request, an error status) is caught and gives \<open>None\<close>, as an empty \<open>versions\<close> does.
\<close>

definition latest_of_response :: "string \<Rightarrow> get_result \<Rightarrow> string option" where
  "latest_of_response area r =
     (case r of
        GetRaises \<Rightarrow> None
      | Response st body \<Rightarrow>
          if raise_for_status st then None
          else (let lines = split_on CHR 0x0A (strip body);
                    versions = collect_versions area lines in
                if versions = [] then None
                else Some (last (sort versions))))"

text \<open>
  The resolver as the specification words it: keep the lines of the form
  \<open>areas/<area>/<version>/tiles.btrfs.gz\<close>, take \<open><version>\<close> of each, return the
  greatest one.
\<close>

definition spec_version_of :: "string \<Rightarrow> string \<Rightarrow> string option" where
  "spec_version_of area line =
     (let pre = ''areas/'' @ area @ ''/''; suf = ''/tiles.btrfs.gz'';
          rest = drop (length pre) line;
          v = take (length rest - length suf) rest in
      if prefix pre line \<and> suffix suf rest \<and> CHR ''/'' \<notin> set v then Some v else None)"

definition spec_resolve_latest :: "string \<Rightarrow> string list \<Rightarrow> string option" where
  "spec_resolve_latest area lines =
     (let vs = List.map_filter (spec_version_of area) lines in
      if vs = [] then None else Some (Max (set vs)))"


section \<open>Paths (\<open>pathlib.Path\<close>)\<close>

text \<open>
  A path is the tuple \<open>Path.parts\<close>: the components, with the root \<open>/\<close> as the first
  one of an absolute path. \<open>Path(s)\<close> drops empty and \<open>.\<close> components and keeps
  \<open>..\<close>; exactly two leading slashes are a root of their own.
\<close>

type_synonym path = "string list"

definition Path :: "string \<Rightarrow> path" where
  "Path s =
     (let comps = filter (\<lambda>c. c \<noteq> [] \<and> c \<noteq> ''.'') (split_on CHR ''/'' s) in
      if prefix ''///'' s then ''/'' # comps
      else if prefix ''//'' s then ''//'' # comps
      else if prefix ''/'' s then ''/'' # comps
      else comps)"

text \<open>\<open>p / s\<close>: an absolute right operand replaces the left one.\<close>

definition pjoin :: "path \<Rightarrow> string \<Rightarrow> path" where
  "pjoin p s = (if prefix ''/'' s then Path s else p @ Path s)"

text \<open>\<open>str(p)\<close>.\<close>

definition path_str :: "path \<Rightarrow> string" where
  "path_str p =
     (case p of
        [] \<Rightarrow> ''.''
      | r # rest \<Rightarrow> if r = ''/'' \<or> r = ''//'' then r @ join ''/'' rest else join ''/'' p)"

text \<open>\<open>p.name\<close> and \<open>p.parent\<close>.\<close>

definition path_name :: "path \<Rightarrow> string" where
  "path_name p = (if p = [] \<or> p = [''/''] \<or> p = [''//''] then [] else last p)"

definition path_parent :: "path \<Rightarrow> path" where
  "path_parent p = (if p = [''/''] \<or> p = [''//''] then p else butlast p)"

section \<open>The file system, the devices and the processes' effects\<close>

text \<open>
  The file system is an association list from paths to nodes, in the order in which the
  operating system lists them. The empty path is the working directory and always exists.
\<close>

datatype node = Dir | File string

type_synonym filesystem = "(path \<times> node) list"

definition fs_exists :: "filesystem \<Rightarrow> path \<Rightarrow> bool" where
  "fs_exists f p = (p = [] \<or> map_of f p \<noteq> None)"

definition fs_is_dir :: "filesystem \<Rightarrow> path \<Rightarrow> bool" where
  "fs_is_dir f p = (p = [] \<or> map_of f p = Some Dir)"

text \<open>The entries directly inside a directory, in the operating system's order.\<close>

definition fs_children :: "filesystem \<Rightarrow> path \<Rightarrow> path list" where
  "fs_children f p =
     filter (\<lambda>q. q \<noteq> [] \<and> butlast q = p \<and> q \<noteq> [''/''] \<and> q \<noteq> [''//'']) (map fst f)"

text \<open>The entries below a path, at any depth.\<close>

definition fs_below :: "filesystem \<Rightarrow> path \<Rightarrow> filesystem" where
  "fs_below f p = filter (\<lambda>(q, n). prefix p q \<and> q \<noteq> p) f"

text \<open>\<open>rm -rf p\<close>: the path and everything below it.\<close>

definition fs_rm_rf :: "filesystem \<Rightarrow> path \<Rightarrow> filesystem" where
  "fs_rm_rf f p = filter (\<lambda>(q, n). \<not> prefix p q) f"

datatype exn =
    CalledProcessError string
  | FileNotFoundError
  | FileExistsError
  | NotADirectoryError
  | IsADirectoryError
  | OSError
  | ValueError
  | TypeError
  | RecursionError
  | OverflowError
  | RequestException

text \<open>
  \<open>Path.mkdir(parents=True, exist_ok=True)\<close>, on the reversed path: an existing
  directory is accepted, an existing file raises, a missing parent is created first.
\<close>

fun mkdir_rev :: "filesystem \<Rightarrow> string list \<Rightarrow> exn + filesystem" where
  "mkdir_rev f [] = Inr f"
| "mkdir_rev f (c # rp) =
     (case map_of f (rev (c # rp)) of
        Some Dir \<Rightarrow> Inr f
      | Some (File x) \<Rightarrow> Inl FileExistsError
      | None \<Rightarrow>
          (case (if rp = [] then None else map_of f (rev rp)) of
             Some (File x) \<Rightarrow> Inl NotADirectoryError
           | _ \<Rightarrow>
              (case mkdir_rev f rp of
                 Inl e \<Rightarrow> Inl e
               | Inr f' \<Rightarrow> Inr (f' @ [(rev (c # rp), Dir)]))))"

definition fs_mkdir_parents :: "filesystem \<Rightarrow> path \<Rightarrow> exn + filesystem" where
  "fs_mkdir_parents f p = mkdir_rev f (rev p)"

text \<open>
  What a process leaves outside its own memory: the file system, the attached loopback
  devices (device and backing file), the mounts (mount point and device), the remote
  calls made, the lines printed that matter here (progress lines are left out), and the
  file system after each change, which is what an interruption at that moment leaves.
\<close>

datatype request = HttpGet string | HttpHead string | Aria2c string path

datatype message =
    Line string
  | ErrorLine string exn
  | SpaceCheck nat int
  | FreeLine nat
  | NeededLine int

record world =
  fs :: filesystem
  loop_devices :: "(string \<times> path) list"
  mounts :: "(path \<times> string) list"
  requests :: "request list"
  stdout :: "message list"
  history :: "filesystem list"

text \<open>
  What the surroundings answer during one run: the environment variables, the remote
  server, the free space, the temporary name, and what each external tool does.
\<close>

datatype content_length = NoHeader | HeaderInt int | HeaderBad

datatype head_result = HeadRaises | HeadResponse nat content_length

record env =
  btrfs_cdn_url :: string
  assets_cdn_url :: string
  http_get :: "string \<Rightarrow> get_result"
  http_head :: "string \<Rightarrow> head_result"
  free_bytes :: "path \<Rightarrow> nat"
  aria2c_run :: "string \<Rightarrow> bool \<times> string option"
  unpigz_run :: "string \<Rightarrow> string option"
  tar_run :: "string \<Rightarrow> filesystem option"
  rm_ok :: bool
  mkdtemp :: string
  losetup_find :: "string option"
  losetup_attach_ok :: bool
  mount_run :: "string \<Rightarrow> filesystem option"
  rsync_copies :: "nat option"
  umount_ok :: bool
  losetup_detach_ok :: bool

section \<open>Programs: state and exceptions\<close>

datatype 'a outcome = Ret 'a | Raise exn

type_synonym 'a prog = "world \<Rightarrow> 'a outcome \<times> world"

definition ret :: "'a \<Rightarrow> 'a prog" where
  "ret x w = (Ret x, w)"

definition raise :: "exn \<Rightarrow> 'a prog" where
  "raise e w = (Raise e, w)"

definition bind :: "'a prog \<Rightarrow> ('a \<Rightarrow> 'b prog) \<Rightarrow> 'b prog" where
  "bind m k w = (case m w of (Ret x, w') \<Rightarrow> k x w' | (Raise e, w') \<Rightarrow> (Raise e, w'))"

definition seq :: "'a prog \<Rightarrow> 'b prog \<Rightarrow> 'b prog" where
  "seq m k = bind m (\<lambda>_. k)"

text \<open>\<open>try: m except Exception as e: h(e)\<close>.\<close>

definition try_except :: "'a prog \<Rightarrow> (exn \<Rightarrow> 'a prog) \<Rightarrow> 'a prog" where
  "try_except m h w = (case m w of (Raise e, w') \<Rightarrow> h e w' | (Ret x, w') \<Rightarrow> (Ret x, w'))"

definition print :: "message \<Rightarrow> unit prog" where
  "print m w = (Ret (), w\<lparr>stdout := stdout w @ [m]\<rparr>)"

definition set_fs :: "filesystem \<Rightarrow> unit prog" where
  "set_fs f w = (Ret (), w\<lparr>fs := f, history := history w @ [f]\<rparr>)"

definition log_request :: "request \<Rightarrow> unit prog" where
  "log_request r w = (Ret (), w\<lparr>requests := requests w @ [r]\<rparr>)"

definition path_exists :: "path \<Rightarrow> bool prog" where
  "path_exists p w = (Ret (fs_exists (fs w) p), w)"

definition mkdir_parents :: "path \<Rightarrow> unit prog" where
  "mkdir_parents p w =
     (case fs_mkdir_parents (fs w) p of
        Inl e \<Rightarrow> (Raise e, w)
      | Inr f \<Rightarrow> if f = fs w then (Ret (), w) else set_fs f w)"

text \<open>\<open>p.iterdir()\<close>, read at once.\<close>

definition iterdir :: "path \<Rightarrow> path list prog" where
  "iterdir p w =
     (if fs_is_dir (fs w) p then (Ret (fs_children (fs w) p), w)
      else if fs_exists (fs w) p then (Raise NotADirectoryError, w)
      else (Raise FileNotFoundError, w))"

text \<open>\<open>open(p, 'w').write(c)\<close>, \<open>p.unlink()\<close> and \<open>src.rename(dst)\<close> (a file replaces a file; a directory moves
  with what is below it).\<close>

definition write_file :: "path \<Rightarrow> string \<Rightarrow> unit prog" where
  "write_file p c w =
     (if fs_is_dir (fs w) p then (Raise IsADirectoryError, w)
      else if \<not> fs_is_dir (fs w) (path_parent p) then (Raise FileNotFoundError, w)
      else set_fs (AList.update p (File c) (fs w)) w)"

definition unlink :: "path \<Rightarrow> unit prog" where
  "unlink p w =
     (case map_of (fs w) p of
        Some (File c) \<Rightarrow> set_fs (AList.delete p (fs w)) w
      | Some Dir \<Rightarrow> (Raise IsADirectoryError, w)
      | None \<Rightarrow> (Raise FileNotFoundError, w))"

definition rename_file :: "path \<Rightarrow> path \<Rightarrow> unit prog" where
  "rename_file src dst w =
     (case map_of (fs w) src of
        Some (File c) \<Rightarrow>
          if fs_is_dir (fs w) dst then (Raise IsADirectoryError, w)
          else if \<not> fs_is_dir (fs w) (path_parent dst) then (Raise FileNotFoundError, w)
          else set_fs (AList.update dst (File c) (AList.delete src (fs w))) w
      | Some Dir \<Rightarrow>
          if fs_exists (fs w) dst \<and> \<not> fs_is_dir (fs w) dst then (Raise NotADirectoryError, w)
          else if fs_children (fs w) dst \<noteq> [] then (Raise OSError, w)
          else if \<not> fs_is_dir (fs w) (path_parent dst) then (Raise FileNotFoundError, w)
          else set_fs (map (\<lambda>(q, n). if prefix src q then (dst @ drop (length src) q, n) else (q, n))
                         (AList.delete dst (fs w))) w
      | None \<Rightarrow> (Raise FileNotFoundError, w))"

section \<open>init-download.py\<close>

text \<open>
  \<open>get_remote_file_size\<close>: the content length of a response with status 200, and 0 when
  the header is missing, when it is not a number, when the status is another one and
  when the request raises.
\<close>

definition size_of_head :: "head_result \<Rightarrow> int" where
  "size_of_head r =
     (case r of
        HeadRaises \<Rightarrow> 0
      | HeadResponse st h \<Rightarrow>
          if st = 200 then (case h of NoHeader \<Rightarrow> 0 | HeaderInt n \<Rightarrow> n | HeaderBad \<Rightarrow> 0)
          else 0)"

definition get_remote_file_size :: "env \<Rightarrow> string \<Rightarrow> int prog" where
  "get_remote_file_size e url =
     seq (log_request (HttpHead url))
       (seq (case http_head e url of
               HeadRaises \<Rightarrow> print (ErrorLine ''Error getting file size'' RequestException)
             | HeadResponse st h \<Rightarrow>
                 if st = 200 \<and> h = HeaderBad
                 then print (ErrorLine ''Error getting file size'' ValueError)
                 else ret ())
          (ret (size_of_head (http_head e url))))"

text \<open>
  \<open>subprocess.run(cmd, check=True)\<close> for aria2c: the tool writes what it fetched to the
  output path and a non-zero exit status raises.
\<close>

definition run_aria2c :: "env \<Rightarrow> string \<Rightarrow> path \<Rightarrow> unit prog" where
  "run_aria2c e url output_path =
     seq (log_request (Aria2c url output_path))
       (case aria2c_run e url of
          (ok, written) \<Rightarrow>
            seq (case written of None \<Rightarrow> ret () | Some c \<Rightarrow> write_file output_path c)
              (if ok then ret () else raise (CalledProcessError ''aria2c'')))"

definition download_file_aria2 :: "env \<Rightarrow> string \<Rightarrow> path \<Rightarrow> unit prog" where
  "download_file_aria2 e url output_path = run_aria2c e url output_path"

text \<open>
  \<open>unpigz file\<close>: on success the file without its \<open>.gz\<close> suffix holds the
  decompressed bytes and the compressed file is gone.
\<close>

definition run_unpigz :: "env \<Rightarrow> path \<Rightarrow> unit prog" where
  "run_unpigz e file w =
     (case map_of (fs w) file of
        Some (File c) \<Rightarrow>
          (case unpigz_run e c of
             Some d \<Rightarrow>
               set_fs (AList.update
                         (path_parent file @ [take (length (path_name file) - 3) (path_name file)])
                         (File d) (AList.delete file (fs w))) w
           | None \<Rightarrow> (Raise (CalledProcessError ''unpigz''), w))
      | _ \<Rightarrow> (Raise (CalledProcessError ''unpigz''), w))"

definition run_rm_rf :: "env \<Rightarrow> path \<Rightarrow> unit prog" where
  "run_rm_rf e p w =
     (if rm_ok e then set_fs (fs_rm_rf (fs w) p) w else (Raise (CalledProcessError ''rm''), w))"

definition get_latest_version :: "env \<Rightarrow> string \<Rightarrow> string option prog" where
  "get_latest_version e area =
     (let url = btrfs_cdn_url e @ ''/files.txt''; r = http_get e url in
      seq (log_request (HttpGet url))
        (seq (case r of
                GetRaises \<Rightarrow> print (ErrorLine ''Error fetching versions'' RequestException)
              | Response st body \<Rightarrow>
                  if raise_for_status st
                  then print (ErrorLine ''Error fetching versions'' RequestException)
                  else if latest_of_response area r = None
                  then print (Line (''No versions found for '' @ area))
                  else ret ())
           (ret (latest_of_response area r))))"

text \<open>
  \<open>n / (1024**3)\<close> on integers gives the nearest float and raises \<open>OverflowError\<close> when
  that is beyond the largest float: from \<open>2^1024 - 2^970\<close> on for the quotient, that is
  from \<open>2^1054 - 2^1000\<close> on for \<open>n\<close>, in either sign.
\<close>

definition gb_overflows :: "int \<Rightarrow> bool" where
  "gb_overflows n = (2 ^ 1054 - 2 ^ 1000 \<le> \<bar>n\<bar>)"

text \<open>
  The disk space check of \<open>download_area\<close> (lines 117 to 131): \<open>True\<close> lets the download
  start. A size of 0 stands for an unknown size. Both counts are converted to GB before
  anything is printed or compared, and the conversion can raise. The lines that report
  the free and the needed space print them in GB with one decimal; the messages here
  hold the byte counts.
\<close>

definition check_disk_space :: "nat \<Rightarrow> int \<Rightarrow> bool prog" where
  "check_disk_space free_space file_size =
     (if file_size = 0
      then seq (print (Line ''Warning: Could not determine remote file size'')) (ret True)
      else (let needed_space = file_size * 3 in
            if gb_overflows (int free_space) \<or> gb_overflows needed_space
            then raise OverflowError
            else
              seq (print (SpaceCheck free_space needed_space))
                (if int free_space < needed_space
                 then seq (print (Line ''ERROR: Not enough disk space''))
                        (seq (print (FreeLine free_space))
                           (seq (print (NeededLine needed_space)) (ret False)))
                 else ret True)))"

text \<open>
  The end of \<open>download_area\<close> (lines 133 to 149): download into the temporary directory,
  decompress there, create the final directory, move the image into it, remove the
  temporary directory.
\<close>

definition fetch_and_place ::
  "env \<Rightarrow> string \<Rightarrow> path \<Rightarrow> path \<Rightarrow> path \<Rightarrow> bool prog" where
  "fetch_and_place e url temp_dir area_version_dir btrfs_file =
     (let compressed_file = pjoin temp_dir ''tiles.btrfs.gz'' in
      seq (download_file_aria2 e url compressed_file)
        (seq (run_unpigz e compressed_file)
           (seq (mkdir_parents area_version_dir)
              (seq (rename_file (pjoin temp_dir ''tiles.btrfs'') btrfs_file)
                 (seq (run_rm_rf e temp_dir)
                    (ret True))))))"

definition download_area :: "env \<Rightarrow> string \<Rightarrow> string \<Rightarrow> string \<Rightarrow> bool prog" where
  "download_area e area version output =
     (let output_dir = Path output in
      seq (mkdir_parents output_dir)
        (bind (if version = ''latest'' then get_latest_version e area else ret (Some version))
           (\<lambda>resolved.
              case (if version = ''latest'' \<and> resolved = Some [] then None else resolved) of
                None \<Rightarrow>
                  seq (print (Line (''Failed to determine latest version for '' @ area)))
                    (ret False)
              | Some v \<Rightarrow>
                (let area_version_dir = pjoin (pjoin output_dir area) v;
                     btrfs_file = pjoin area_version_dir ''tiles.btrfs'' in
                 bind (path_exists btrfs_file)
                   (\<lambda>present.
                      if present
                      then seq (print (Line (''Btrfs file already exists: '' @ path_str btrfs_file)))
                             (ret True)
                      else
                        (let temp_dir = pjoin output_dir ''_tmp'';
                             url = btrfs_cdn_url e @ ''/areas/'' @ area @ ''/'' @ v
                                   @ ''/tiles.btrfs.gz'' in
                         seq (mkdir_parents temp_dir)
                           (bind (get_remote_file_size e url)
                              (\<lambda>file_size.
                                 bind (check_disk_space (free_bytes e temp_dir) file_size)
                                   (\<lambda>enough.
                                      if \<not> enough then ret False
                                      else fetch_and_place e url temp_dir area_version_dir
                                             btrfs_file)))))))))"

section \<open>extract-btrfs.py\<close>

text \<open>
  \<open>mount_btrfs\<close>: create the mount point, ask for a free loopback device, attach the
  image to it, mount it read-only. Each tool raises on a non-zero exit status. A mounted
  image shows its entries below the mount point.
\<close>

definition run_losetup_find :: "env \<Rightarrow> string prog" where
  "run_losetup_find e =
     (case losetup_find e of
        None \<Rightarrow> raise (CalledProcessError ''losetup -f'')
      | Some out \<Rightarrow> ret (strip out))"

definition run_losetup_attach :: "env \<Rightarrow> string \<Rightarrow> path \<Rightarrow> unit prog" where
  "run_losetup_attach e loop_device btrfs_file w =
     (if losetup_attach_ok e
      then (Ret (), w\<lparr>loop_devices := loop_devices w @ [(loop_device, btrfs_file)]\<rparr>)
      else (Raise (CalledProcessError ''losetup''), w))"

definition run_mount :: "env \<Rightarrow> string \<Rightarrow> path \<Rightarrow> unit prog" where
  "run_mount e loop_device mount_point w =
     (case (case map_of (loop_devices w) loop_device of
              None \<Rightarrow> None
            | Some backing \<Rightarrow>
                (case map_of (fs w) backing of Some (File c) \<Rightarrow> mount_run e c | _ \<Rightarrow> None)) of
        None \<Rightarrow> (Raise (CalledProcessError ''mount''), w)
      | Some entries \<Rightarrow>
          set_fs (fs w @ map (\<lambda>(q, n). (mount_point @ q, n)) entries)
            (w\<lparr>mounts := mounts w @ [(mount_point, loop_device)]\<rparr>))"

definition mount_btrfs :: "env \<Rightarrow> path \<Rightarrow> string \<Rightarrow> (string \<times> path) prog" where
  "mount_btrfs e btrfs_file mount_point_str =
     (let mount_point = Path mount_point_str in
      seq (mkdir_parents mount_point)
        (bind (run_losetup_find e)
           (\<lambda>loop_device.
              seq (run_losetup_attach e loop_device btrfs_file)
                (seq (run_mount e loop_device mount_point)
                   (ret (loop_device, mount_point))))))"

text \<open>
  \<open>unmount_btrfs\<close>: \<open>umount\<close>, then \<open>losetup -d\<close>; a failure of either is caught and
  reported as a warning, and a failure of \<open>umount\<close> skips \<open>losetup -d\<close>.
\<close>

definition run_umount :: "env \<Rightarrow> path \<Rightarrow> unit prog" where
  "run_umount e mount_point w =
     (if umount_ok e \<and> map_of (mounts w) mount_point \<noteq> None
      then set_fs (filter (\<lambda>(q, n). \<not> (prefix mount_point q \<and> q \<noteq> mount_point)) (fs w))
             (w\<lparr>mounts := AList.delete mount_point (mounts w)\<rparr>)
      else (Raise (CalledProcessError ''umount''), w))"

definition run_losetup_detach :: "env \<Rightarrow> string \<Rightarrow> unit prog" where
  "run_losetup_detach e loop_device w =
     (if losetup_detach_ok e \<and> map_of (loop_devices w) loop_device \<noteq> None
      then (Ret (), w\<lparr>loop_devices := AList.delete loop_device (loop_devices w)\<rparr>)
      else (Raise (CalledProcessError ''losetup -d''), w))"

definition unmount_btrfs :: "env \<Rightarrow> string \<Rightarrow> string \<Rightarrow> unit prog" where
  "unmount_btrfs e mount_point_str loop_device =
     try_except
       (seq (run_umount e (Path mount_point_str)) (run_losetup_detach e loop_device))
       (\<lambda>x. case x of
              CalledProcessError c \<Rightarrow> print (ErrorLine ''Warning: Error during unmount'' x)
            | _ \<Rightarrow> raise x)"

text \<open>
  \<open>rsync -a src/ dst/\<close>: the destination directory is created, then the entries below
  the source are copied one by one. \<open>rsync_copies\<close> says after how many entries the tool
  stops with an error, if it does. A source that is not a directory makes the tool fail
  after it has created the destination.
\<close>

fun copy_entries :: "path \<Rightarrow> filesystem \<Rightarrow> unit prog" where
  "copy_entries dst [] = ret ()"
| "copy_entries dst ((q, n) # rest) =
     (\<lambda>w. (seq (set_fs (AList.update (dst @ q) n (fs w))) (copy_entries dst rest)) w)"

definition run_rsync :: "env \<Rightarrow> path \<Rightarrow> path \<Rightarrow> unit prog" where
  "run_rsync e src dst w =
     (let entries = map (\<lambda>(q, n). (drop (length src) q, n)) (fs_below (fs w) src) in
      if fs_is_dir (fs w) (path_parent dst)
      then
        seq (try_except (mkdir_parents dst) (\<lambda>x. raise (CalledProcessError ''rsync'')))
          (if fs_is_dir (fs w) src
           then (case rsync_copies e of
                   None \<Rightarrow> copy_entries dst entries
                 | Some k \<Rightarrow>
                     seq (copy_entries dst (take k entries))
                       (raise (CalledProcessError ''rsync'')))
           else raise (CalledProcessError ''rsync'')) w
      else (Raise (CalledProcessError ''rsync''), w))"

text \<open>\<open>shutil.copy2(src, dst)\<close> for a file.\<close>

definition copy2 :: "path \<Rightarrow> path \<Rightarrow> unit prog" where
  "copy2 src dst w =
     (case map_of (fs w) src of
        Some (File c) \<Rightarrow> write_file dst c w
      | Some Dir \<Rightarrow> (Raise IsADirectoryError, w)
      | None \<Rightarrow> (Raise FileNotFoundError, w))"

text \<open>
  \<open>with tempfile.TemporaryDirectory() as temp_mount\<close>: the directory is created on
  entry and removed on every exit. Removing it raises while an image is still mounted
  on it (the mount is read-only).
\<close>

definition temp_cleanup :: "path \<Rightarrow> unit prog" where
  "temp_cleanup p w =
     (if map_of (mounts w) p \<noteq> None then (Raise OSError, w)
      else set_fs (fs_rm_rf (fs w) p) w)"

definition with_temporary_directory :: "env \<Rightarrow> (string \<Rightarrow> 'a prog) \<Rightarrow> 'a prog" where
  "with_temporary_directory e body =
     seq (mkdir_parents (Path (mkdtemp e)))
       (\<lambda>w. case body (mkdtemp e) w of
              (r, w') \<Rightarrow>
                (case temp_cleanup (Path (mkdtemp e)) w' of
                   (Raise x, w'') \<Rightarrow> (Raise x, w'')
                 | (Ret u, w'') \<Rightarrow> (r, w'')))"

text \<open>
  The \<open>try\<close> block of \<open>extract_tiles\<close> after the mount (lines 84 to 115).
\<close>

definition copy_tiles :: "env \<Rightarrow> path \<Rightarrow> path \<Rightarrow> bool prog" where
  "copy_tiles e mount_point tiles_output =
     (let tiles_dir = pjoin mount_point ''tiles'';
          metadata_file = pjoin mount_point ''metadata.json'' in
      bind (path_exists tiles_dir)
        (\<lambda>found.
           if \<not> found
           then seq (print (Line ''Error: tiles directory not found in Btrfs image'')) (ret False)
           else
             seq (mkdir_parents tiles_output)
               (seq (run_rsync e tiles_dir (pjoin tiles_output ''tiles''))
                  (bind (path_exists metadata_file)
                     (\<lambda>has_metadata.
                        seq (if has_metadata
                             then copy2 metadata_file (pjoin tiles_output ''metadata.json'')
                             else ret ())
                          (ret True))))))"

text \<open>
  \<open>try: ... except Exception: return False finally: if loop_device: unmount_btrfs(...)\<close>.
  The variable \<open>loop_device\<close> is \<open>None\<close> until \<open>mount_btrfs\<close> has returned, so it is
  still \<open>None\<close> in the \<open>finally\<close> block when \<open>mount_btrfs\<close> raised; an empty device
  name counts as unset too.
\<close>

definition mount_copy_unmount :: "env \<Rightarrow> path \<Rightarrow> path \<Rightarrow> string \<Rightarrow> bool prog" where
  "mount_copy_unmount e btrfs_file tiles_output temp_mount w =
     (case mount_btrfs e btrfs_file temp_mount w of
        (Raise x, w1) \<Rightarrow>
          seq (print (ErrorLine ''Error during extraction'' x)) (ret False) w1
      | (Ret (loop_device, mount_point), w1) \<Rightarrow>
          (case try_except (copy_tiles e mount_point tiles_output)
                  (\<lambda>x. seq (print (ErrorLine ''Error during extraction'' x)) (ret False)) w1 of
             (r, w2) \<Rightarrow>
               (if loop_device \<noteq> []
                then (case unmount_btrfs e temp_mount loop_device w2 of
                        (Raise x, w3) \<Rightarrow> (Raise x, w3)
                      | (Ret u, w3) \<Rightarrow> (r, w3))
                else (r, w2))))"

definition extract_tiles :: "env \<Rightarrow> string \<Rightarrow> string \<Rightarrow> string \<Rightarrow> string \<Rightarrow> bool prog" where
  "extract_tiles e btrfs output area version =
     (let btrfs_file = Path btrfs; output_dir = Path output in
      bind (path_exists btrfs_file)
        (\<lambda>found.
           if \<not> found
           then seq (print (Line (''Error: Btrfs file not found: '' @ path_str btrfs_file)))
                  (ret False)
           else
             (let tiles_output = pjoin (pjoin output_dir area) version in
              bind (path_exists tiles_output)
                (\<lambda>there.
                   bind (if there then path_exists (pjoin tiles_output ''tiles'') else ret False)
                     (\<lambda>extracted.
                        if extracted
                        then seq (print (Line (''Tiles already extracted to ''
                                                @ path_str tiles_output)))
                               (ret True)
                        else with_temporary_directory e
                               (mount_copy_unmount e btrfs_file tiles_output))))))"

section \<open>download-assets.py\<close>

text \<open>\<open>s.startswith\<close> is \<open>prefix\<close>, \<open>s.endswith\<close> is \<open>suffix\<close>.\<close>

text \<open>
  \<open>s.splitlines()\<close>: the line boundaries among the ASCII characters are line feed,
  carriage return (with a following line feed), vertical tab, form feed and the
  separators 0x1C, 0x1D, 0x1E; beyond ASCII they are U+0085, U+2028 and U+2029, in
  their UTF-8 bytes here. There is no empty last line.
\<close>

definition is_line_boundary :: "char \<Rightarrow> bool" where
  "is_line_boundary c = (c \<in> set [CHR 0x0A, CHR 0x0B, CHR 0x0C, CHR 0x0D, CHR 0x1C, CHR 0x1D, CHR 0x1E])"

definition boundary2 :: "string list" where
  "boundary2 = [[CHR 0x0D, CHR 0x0A], [CHR 0xC2, CHR 0x85]]"

definition boundary3 :: "string list" where
  "boundary3 = [[CHR 0xE2, CHR 0x80, CHR 0xA8], [CHR 0xE2, CHR 0x80, CHR 0xA9]]"

fun splitlines_acc :: "string \<Rightarrow> string \<Rightarrow> string list" where
  "splitlines_acc acc (a # b # c # s) =
     (if [a, b] \<in> set boundary2 then rev acc # splitlines_acc [] (c # s)
      else if is_line_boundary a then rev acc # splitlines_acc [] (b # c # s)
      else if [a, b, c] \<in> set boundary3 then rev acc # splitlines_acc [] s
      else splitlines_acc (a # acc) (b # c # s))"
| "splitlines_acc acc [a, b] =
     (if [a, b] \<in> set boundary2 then [rev acc]
      else if is_line_boundary a then rev acc # splitlines_acc [] [b]
      else splitlines_acc (a # acc) [b])"
| "splitlines_acc acc [a] = (if is_line_boundary a then [rev acc] else [rev (a # acc)])"
| "splitlines_acc acc [] = (if acc = [] then [] else [rev acc])"

definition splitlines :: "string \<Rightarrow> string list" where
  "splitlines s = splitlines_acc [] s"

text \<open>\<open>s.replace(sub, '')\<close> for a non-empty \<open>sub\<close>: every occurrence, from the left.\<close>

fun remove_all :: "string \<Rightarrow> string \<Rightarrow> string" where
  "remove_all sub [] = []"
| "remove_all sub (x # xs) =
     (if sub \<noteq> [] \<and> prefix sub (x # xs) then remove_all sub (drop (length sub - 1) xs)
      else x # remove_all sub xs)"

definition download_file :: "env \<Rightarrow> string \<Rightarrow> path \<Rightarrow> unit prog" where
  "download_file e url output_path =
     seq (mkdir_parents (path_parent output_path)) (run_aria2c e url output_path)"

text \<open>\<open>tar -xzf archive -C output_dir\<close>: the archive's entries appear below \<open>output_dir\<close>.\<close>

definition extract_tar_gz :: "env \<Rightarrow> path \<Rightarrow> path \<Rightarrow> unit prog" where
  "extract_tar_gz e archive_path output_dir w =
     (case (case map_of (fs w) archive_path of Some (File c) \<Rightarrow> tar_run e c | _ \<Rightarrow> None) of
        None \<Rightarrow> (Raise (CalledProcessError ''tar''), w)
      | Some entries \<Rightarrow> copy_entries output_dir entries w)"

text \<open>\<open>d.exists() and any(d.iterdir())\<close>.\<close>

definition exists_and_nonempty :: "path \<Rightarrow> bool prog" where
  "exists_and_nonempty d =
     bind (path_exists d)
       (\<lambda>there. if there then bind (iterdir d) (\<lambda>entries. ret (entries \<noteq> [])) else ret False)"

definition download_asset :: "env \<Rightarrow> string \<Rightarrow> string \<Rightarrow> bool prog" where
  "download_asset e asset_name assets =
     (let assets_dir = Path assets;
          asset_dir = pjoin assets_dir asset_name in
      seq (mkdir_parents asset_dir)
        (let ofm_dir = pjoin asset_dir ''ofm'' in
         bind (exists_and_nonempty ofm_dir)
           (\<lambda>done.
              if done
              then seq (print (Line (''Asset '' @ asset_name @ '' already exists, skipping'')))
                     (ret True)
              else
                (let url = ''https://assets.openfreemap.com/'' @ asset_name @ ''/ofm.tar.gz'';
                     archive_path = pjoin asset_dir ''ofm.tar.gz'' in
                 try_except
                   (seq (download_file e url archive_path)
                      (seq (extract_tar_gz e archive_path asset_dir)
                         (seq (unlink archive_path) (ret True))))
                   (\<lambda>x. seq (print (ErrorLine (''Error downloading '' @ asset_name) x))
                          (ret False))))))"

text \<open>The body of the loop of \<open>download_sprites\<close> for one line of the listing.\<close>

definition download_sprite :: "env \<Rightarrow> path \<Rightarrow> string \<Rightarrow> unit prog" where
  "download_sprite e sprites_dir sprite_path =
     (let sprite_name = remove_all ''.tar.gz'' (split_on CHR ''/'' sprite_path ! 1);
          sprite_version_dir = pjoin sprites_dir sprite_name in
      bind (exists_and_nonempty sprite_version_dir)
        (\<lambda>done.
           if done
           then print (Line (''Sprite version '' @ sprite_name @ '' already exists, skipping''))
           else
             (let url = assets_cdn_url e @ ''/sprites/'' @ sprite_name @ ''.tar.gz'';
                  temp_archive = pjoin sprites_dir ''temp.tar.gz'' in
              try_except
                (seq (download_file e url temp_archive)
                   (seq (extract_tar_gz e temp_archive sprites_dir) (unlink temp_archive)))
                (\<lambda>x. print (ErrorLine (''Error downloading sprite '' @ sprite_name) x)))))"

fun for_each :: "('a \<Rightarrow> unit prog) \<Rightarrow> 'a list \<Rightarrow> unit prog" where
  "for_each body [] = ret ()"
| "for_each body (x # xs) = seq (body x) (for_each body xs)"

definition download_sprites :: "env \<Rightarrow> string \<Rightarrow> bool prog" where
  "download_sprites e assets =
     (let assets_dir = Path assets;
          sprites_dir = pjoin assets_dir ''sprites'' in
      seq (mkdir_parents sprites_dir)
        (try_except
           (seq (log_request (HttpGet (assets_cdn_url e @ ''/files.txt'')))
              (case http_get e (assets_cdn_url e @ ''/files.txt'') of
                 GetRaises \<Rightarrow> raise RequestException
               | Response st body \<Rightarrow>
                   if raise_for_status st then raise RequestException
                   else
                     (let sprites_remote =
                            filter (\<lambda>line. prefix ''sprites/'' line \<and> suffix ''.tar.gz'' line)
                              (splitlines body) in
                      seq (for_each (download_sprite e sprites_dir) sprites_remote)
                        (ret True))))
           (\<lambda>x. seq (print (ErrorLine ''Error downloading sprites'' x)) (ret False))))"

section \<open>generate-nginx-config.py\<close>

text \<open>The two templates, with the paths and names put in as the f-strings do.\<close>

definition version_config :: "string \<Rightarrow> string \<Rightarrow> path \<Rightarrow> path \<Rightarrow> string" where
  "version_config area version tilejson_path tiles_path =
     ''# Specific version: '' @ area @ ''/'' @ version @ ''\<newline>''
     @ ''location = /'' @ area @ ''/'' @ version @ '' {\<newline>''
     @ ''    alias '' @ path_str tilejson_path @ '';\<newline>''
     @ ''    expires 1w;\<newline>''
     @ ''    default_type application/json;\<newline>''
     @ ''    add_header 'Access-Control-Allow-Origin' '*' always;\<newline>''
     @ ''    add_header Cache-Control public;\<newline>''
     @ ''    add_header X-Robots-Tag \"noindex, nofollow\" always;\<newline>''
     @ ''    add_header x-ofm-debug 'specific JSON '' @ area @ '' '' @ version @ ''';\<newline>''
     @ ''}\<newline>''
     @ ''\<newline>''
     @ ''location ^~ /'' @ area @ ''/'' @ version @ ''/ {\<newline>''
     @ ''    alias '' @ path_str tiles_path @ ''/;\<newline>''
     @ ''    try_files $uri @empty_tile;\<newline>''
     @ ''    add_header Content-Encoding gzip;\<newline>''
     @ ''    expires 10y;\<newline>''
     @ ''    \<newline>''
     @ ''    types {\<newline>''
     @ ''        application/vnd.mapbox-vector-tile pbf;\<newline>''
     @ ''    }\<newline>''
     @ ''    \<newline>''
     @ ''    add_header 'Access-Control-Allow-Origin' '*' always;\<newline>''
     @ ''    add_header Cache-Control public;\<newline>''
     @ ''    add_header X-Robots-Tag \"noindex, nofollow\" always;\<newline>''
     @ ''    add_header x-ofm-debug 'specific PBF '' @ area @ '' '' @ version @ ''';\<newline>''
     @ ''}\<newline>''"

definition latest_config :: "string \<Rightarrow> string \<Rightarrow> path \<Rightarrow> path \<Rightarrow> path \<Rightarrow> string" where
  "latest_config area latest_version tilejson_path latest_path tiles_path =
     ''# Latest version redirect: '' @ area @ '' -> '' @ latest_version @ ''\<newline>''
     @ ''location = /'' @ area @ '' {\<newline>''
     @ ''    alias '' @ path_str tilejson_path @ '';\<newline>''
     @ ''    expires 1d;\<newline>''
     @ ''    default_type application/json;\<newline>''
     @ ''    add_header 'Access-Control-Allow-Origin' '*' always;\<newline>''
     @ ''    add_header Cache-Control public;\<newline>''
     @ ''    add_header X-Robots-Tag \"noindex, nofollow\" always;\<newline>''
     @ ''    add_header x-ofm-debug 'latest JSON '' @ area @ ''';\<newline>''
     @ ''}\<newline>''
     @ ''\<newline>''
     @ ''# Wildcard version support for '' @ area @ ''\<newline>''
     @ ''location ~ ^/'' @ area @ ''/([^/]+)$ {\<newline>''
     @ ''    root '' @ path_str latest_path @ '';\<newline>''
     @ ''    try_files /tilejson.json =404;\<newline>''
     @ ''    expires 1w;\<newline>''
     @ ''    default_type application/json;\<newline>''
     @ ''    add_header 'Access-Control-Allow-Origin' '*' always;\<newline>''
     @ ''    add_header Cache-Control public;\<newline>''
     @ ''    add_header X-Robots-Tag \"noindex, nofollow\" always;\<newline>''
     @ ''    add_header x-ofm-debug 'wildcard JSON '' @ area @ ''';\<newline>''
     @ ''}\<newline>''
     @ ''\<newline>''
     @ ''location ~ ^/'' @ area @ ''/([^/]+)/(.+)$ {\<newline>''
     @ ''    root '' @ path_str tiles_path @ ''/;\<newline>''
     @ ''    try_files /$2 @empty_tile;\<newline>''
     @ ''    add_header Content-Encoding gzip;\<newline>''
     @ ''    expires 10y;\<newline>''
     @ ''    \<newline>''
     @ ''    types {\<newline>''
     @ ''        application/vnd.mapbox-vector-tile pbf;\<newline>''
     @ ''    }\<newline>''
     @ ''    \<newline>''
     @ ''    add_header 'Access-Control-Allow-Origin' '*' always;\<newline>''
     @ ''    add_header Cache-Control public;\<newline>''
     @ ''    add_header X-Robots-Tag \"noindex, nofollow\" always;\<newline>''
     @ ''    add_header x-ofm-debug 'wildcard PBF '' @ area @ ''';\<newline>''
     @ ''}\<newline>''"

text \<open>
  A parsed JSON document. A number is held as Python's value of it; an object is a
  \<open>dict\<close>, which keeps its keys in insertion order. \<open>json.load\<close> and \<open>json.dump\<close>
  with \<open>separators=(',', ':')\<close> belong to Python's library and are taken from the
  surroundings. \<open>json.load\<close> returns the document or raises. \<open>json.dump\<close> writes to the
  open file piece by piece and can raise part-way (a \<open>RecursionError\<close> on a deeply nested
  document): it gives the text it has written and the exception, if it raised one.
\<close>

datatype json =
    JObject "(string \<times> json) list"
  | JArray "json list"
  | JString string
  | JNumber string
  | JBool bool
  | JNull

record codec =
  json_load :: "string \<Rightarrow> exn + json"
  json_dump :: "json \<Rightarrow> string \<times> exn option"














section \<open>A deployment used in the examples\<close>

text \<open>
  The server lists two versions of the planet, the image is 5 GB, 10 GB are free, and
  every tool succeeds. The image holds two tiles and its metadata.
\<close>

definition example_env :: env where
  "example_env =
     \<lparr>btrfs_cdn_url = ''https://btrfs.openfreemap.com'',
      assets_cdn_url = ''https://assets.openfreemap.com'',
      http_get = (\<lambda>u. Response 200
                   (''areas/planet/20240101_000000/tiles.btrfs.gz'' @ [CHR 0x0A]
                    @ ''areas/planet/20240102_000000/tiles.btrfs.gz'' @ [CHR 0x0A])),
      http_head = (\<lambda>u. HeadResponse 200 (HeaderInt (5 * 1024 ^ 3))),
      free_bytes = (\<lambda>p. 10 * 1024 ^ 3),
      aria2c_run = (\<lambda>u. (True, Some ''compressed'')),
      unpigz_run = (\<lambda>c. Some ''image''),
      tar_run = (\<lambda>c. None),
      rm_ok = True,
      mkdtemp = ''/tmp/tmpx'',
      losetup_find = Some ''/dev/loop0'',
      losetup_attach_ok = True,
      mount_run = (\<lambda>c. Some [([''tiles''], Dir),
                              ([''tiles'', ''0.pbf''], File ''tile0''),
                              ([''tiles'', ''1.pbf''], File ''tile1''),
                              ([''metadata.json''], File ''{}'')]),
      rsync_copies = None,
      umount_ok = True,
      losetup_detach_ok = True\<rparr>"


text \<open>The image of version \<open>20240102_000000\<close> is in place; nothing is extracted yet.\<close>

definition example_world :: world where
  "example_world =
     \<lparr>fs = [([''/''], Dir),
            ([''/'', ''tmp''], Dir),
            ([''/'', ''data''], Dir),
            ([''/'', ''data'', ''btrfs''], Dir),
            ([''/'', ''data'', ''btrfs'', ''planet''], Dir),
            ([''/'', ''data'', ''btrfs'', ''planet'', ''20240102_000000''], Dir),
            ([''/'', ''data'', ''btrfs'', ''planet'', ''20240102_000000'', ''tiles.btrfs''],
             File ''image'')],
      loop_devices = [], mounts = [], requests = [], stdout = [], history = []\<rparr>"

section \<open>Remote calls of a program\<close>

text \<open>
  \<open>adds P m\<close>: from every world, the program \<open>m\<close> only appends to the remote calls made,
  and every call it appends satisfies \<open>P\<close>.
\<close>

definition adds :: "(request \<Rightarrow> bool) \<Rightarrow> 'a prog \<Rightarrow> bool" where
  "adds P m = (\<forall>w. \<exists>rs. requests (snd (m w)) = requests w @ rs \<and> list_all P rs)"

text \<open>A download by aria2c writes to the path \<open>p\<close>; other calls are not restricted.\<close>

definition downloads_to :: "path \<Rightarrow> request \<Rightarrow> bool" where
  "downloads_to p r = (case r of Aria2c u q \<Rightarrow> q = p | _ \<Rightarrow> True)"

section \<open>The fragments as functions of the tree\<close>

text \<open>
  The shape of a file system: its paths, in their order, each with whether it is a
  directory. File contents are not part of it.
\<close>

definition shape :: "filesystem \<Rightarrow> (path \<times> bool) list" where
  "shape f = map (\<lambda>(p, n). (p, n = Dir)) f"

text \<open>
  What the loops of \<open>generate_tile_locations\<close> and \<open>generate_latest_redirects\<close> append,
  read off a file system without running them.
\<close>

definition version_fragment ::
  "filesystem \<Rightarrow> string \<Rightarrow> path \<Rightarrow> (string \<times> string \<times> string) list" where
  "version_fragment f area version_dir =
     (if fs_is_dir f version_dir \<and> fs_exists f (pjoin version_dir ''tiles'')
         \<and> fs_exists f (pjoin version_dir ''metadata.json'')
      then [(area, path_name version_dir,
             version_config area (path_name version_dir) (pjoin version_dir ''tilejson.json'')
               (pjoin version_dir ''tiles''))]
      else [])"

definition area_fragments :: "filesystem \<Rightarrow> path \<Rightarrow> (string \<times> string \<times> string) list" where
  "area_fragments f area_dir =
     (if fs_is_dir f area_dir
      then concat (map (version_fragment f (path_name area_dir)) (sort (fs_children f area_dir)))
      else [])"

definition tile_fragments :: "filesystem \<Rightarrow> path \<Rightarrow> (string \<times> string \<times> string) list" where
  "tile_fragments f tiles_dir = concat (map (area_fragments f) (sort (fs_children f tiles_dir)))"

definition area_versions :: "filesystem \<Rightarrow> path \<Rightarrow> string list" where
  "area_versions f area_dir = sort (map path_name (filter (fs_is_dir f) (fs_children f area_dir)))"

definition latest_fragment :: "filesystem \<Rightarrow> path \<Rightarrow> (string \<times> string) list" where
  "latest_fragment f area_dir =
     (if fs_is_dir f area_dir \<and> area_versions f area_dir \<noteq> []
         \<and> fs_exists f (pjoin (pjoin area_dir (last (area_versions f area_dir))) ''tiles'')
         \<and> fs_exists f (pjoin (pjoin area_dir (last (area_versions f area_dir))) ''tilejson.json'')
      then [(path_name area_dir,
             latest_config (path_name area_dir) (last (area_versions f area_dir))
               (pjoin (pjoin area_dir (last (area_versions f area_dir))) ''tilejson.json'')
               (pjoin area_dir (last (area_versions f area_dir)))
               (pjoin (pjoin area_dir (last (area_versions f area_dir))) ''tiles''))]
      else [])"

definition latest_fragments :: "filesystem \<Rightarrow> path \<Rightarrow> (string \<times> string) list" where
  "latest_fragments f tiles_dir = concat (map (latest_fragment f) (sort (fs_children f tiles_dir)))"

text \<open>
  The tree of the specification's example: the areas \<open>alpha\<close> with the versions \<open>v1\<close>
  and \<open>v2\<close>, and \<open>beta\<close> with \<open>v1\<close>, each version complete, listed in no particular
  order, and the two documents of an earlier run.
\<close>

definition version_tree :: "string \<Rightarrow> string \<Rightarrow> filesystem" where
  "version_tree area version =
     [([''/'', ''data'', ''tiles'', area, version], Dir),
      ([''/'', ''data'', ''tiles'', area, version, ''tilejson.json''],
       File ''{\"tilejson\":\"3.0.0\",\"tiles\":[\"https://old.example/{z}/{x}/{y}.pbf\"],\"maxzoom\":14}''),
      ([''/'', ''data'', ''tiles'', area, version, ''tiles''], Dir),
      ([''/'', ''data'', ''tiles'', area, version, ''metadata.json''], File ''{}'')]"

definition example_tree :: filesystem where
  "example_tree =
     [([''/''], Dir), ([''/'', ''data''], Dir), ([''/'', ''data'', ''tiles''], Dir),
      ([''/'', ''etc''], Dir), ([''/'', ''etc'', ''nginx''], Dir),
      ([''/'', ''etc'', ''nginx'', ''includes''], Dir),
      ([''/'', ''etc'', ''nginx'', ''includes'', ''tiles-versions.conf''], File ''old''),
      ([''/'', ''etc'', ''nginx'', ''includes'', ''tiles-latest.conf''], File ''old''),
      ([''/'', ''data'', ''tiles'', ''beta''], Dir),
      ([''/'', ''data'', ''tiles'', ''alpha''], Dir)]
     @ version_tree ''alpha'' ''v2'' @ version_tree ''beta'' ''v1'' @ version_tree ''alpha'' ''v1''"

text \<open>
  A stand-in for Python's \<open>json\<close> in the examples: it prints every document in the
  compact form (strings are taken to need no escapes) and reads the empty object and the
  manifests that have the three fields \<open>tilejson\<close>, \<open>tiles\<close> and \<open>maxzoom\<close>.
\<close>

fun dump_value :: "json \<Rightarrow> string"
  and dump_items :: "(string \<times> json) list \<Rightarrow> string"
  and dump_elements :: "json list \<Rightarrow> string" where
  "dump_value (JObject items) = ''{'' @ dump_items items @ ''}''"
| "dump_value (JArray xs) = ''['' @ dump_elements xs @ '']''"
| "dump_value (JString s) = ''\"'' @ s @ ''\"''"
| "dump_value (JNumber n) = n"
| "dump_value (JBool b) = (if b then ''true'' else ''false'')"
| "dump_value JNull = ''null''"
| "dump_items [] = []"
| "dump_items (kv # rest) =
     ''\"'' @ fst kv @ ''\":'' @ dump_value (snd kv)
     @ (if rest = [] then [] else '','' @ dump_items rest)"
| "dump_elements [] = []"
| "dump_elements (x # xs) =
     dump_value x @ (if xs = [] then [] else '','' @ dump_elements xs)"

definition example_dump :: "json \<Rightarrow> string \<times> exn option" where
  "example_dump d = (dump_value d, None)"

definition example_load :: "string \<Rightarrow> exn + json" where
  "example_load s =
     (let pre = ''{\"tilejson\":\"3.0.0\",\"tiles\":[\"''; suf = ''\"],\"maxzoom\":14}'' in
      if s = ''{}'' then Inr (JObject [])
      else if length pre + length suf \<le> length s \<and> take (length pre) s = pre
              \<and> drop (length s - length suf) s = suf
      then Inr (JObject [(''tilejson'', JString ''3.0.0''),
                         (''tiles'', JArray [JString (take (length s - length pre - length suf)
                                                        (drop (length pre) s))]),
                         (''maxzoom'', JNumber ''14'')])
      else Inl ValueError)"

definition example_codec :: codec where
  "example_codec = \<lparr>json_load = example_load, json_dump = example_dump\<rparr>"

definition tree_world :: world where
  "tree_world = \<lparr>fs = example_tree, loop_devices = [], mounts = [], requests = [], stdout = [],
                  history = []\<rparr>"

section \<open>Facts about the string functions\<close>

lemma str_in_sublist: "str_in p s \<longleftrightarrow> sublist p s"
  by (induction s) (auto simp: sublist_Cons_right)

lemma split_on_free: "c \<notin> set a \<Longrightarrow> split_on c a = [a]"
  by (induction a) auto

lemma split_on_append: "c \<notin> set a \<Longrightarrow> split_on c (a @ c # b) = a # split_on c b"
  by (induction a) auto

lemma le_last_sorted: "sorted xs \<Longrightarrow> x \<in> set xs \<Longrightarrow> x \<le> last (xs::'a::linorder list)"
  by (induction xs) auto

lemma last_sort_Max:
  fixes vs :: "'a::linorder list"
  assumes "vs \<noteq> []"
  shows "last (sort vs) = Max (set vs)"
proof -
  have ne: "sort vs \<noteq> []" using assms by (metis length_0_conv length_sort)
  have "Max (set (sort vs)) = last (sort vs)"
  proof (rule Max_eqI)
    show "finite (set (sort vs))" by simp
    show "last (sort vs) \<in> set (sort vs)" using ne by (rule last_in_set)
    fix y assume "y \<in> set (sort vs)"
    then show "y \<le> last (sort vs)" by (rule le_last_sorted [OF sorted_sort])
  qed
  then show ?thesis by simp
qed

section \<open>Version resolution: what the loop collects\<close>

lemma collect_versions_filter:
  "collect_versions area lines =
     map (\<lambda>l. split_on CHR ''/'' l ! 2)
       (filter (\<lambda>l. str_in (''areas/'' @ area @ ''/'') l \<and> str_in ''tiles.btrfs.gz'' l
                     \<and> length (split_on CHR ''/'' l) \<ge> 4) lines)"
  by (induction lines) (simp_all add: Let_def)

lemma spec_line_shape:
  assumes "spec_version_of area line = Some v"
  shows "line = ''areas/'' @ area @ ''/'' @ v @ ''/tiles.btrfs.gz'' \<and> CHR ''/'' \<notin> set v"
proof -
  let ?pre = "''areas/'' @ area @ ''/''"
  let ?suf = "''/tiles.btrfs.gz''"
  let ?rest = "drop (length ?pre) line"
  from assms have p: "prefix ?pre line" and s: "suffix ?suf ?rest"
    and v: "v = take (length ?rest - length ?suf) ?rest" and nv: "CHR ''/'' \<notin> set v"
    by (auto simp: spec_version_of_def Let_def split: if_splits)
  from p have l: "line = ?pre @ ?rest" by (metis append_eq_conv_conj prefix_def)
  from s obtain u where u: "?rest = u @ ?suf" by (auto simp: suffix_def)
  then have "v = u" using v by simp
  with l u nv show ?thesis by simp
qed

lemma spec_line_parts:
  assumes a: "CHR ''/'' \<notin> set area" and s: "spec_version_of area line = Some v"
  shows "str_in (''areas/'' @ area @ ''/'') line \<and> str_in ''tiles.btrfs.gz'' line
         \<and> split_on CHR ''/'' line = [''areas'', area, v, ''tiles.btrfs.gz'']"
proof -
  from spec_line_shape [OF s]
  have l: "line = ''areas/'' @ area @ ''/'' @ v @ ''/tiles.btrfs.gz''" and nv: "CHR ''/'' \<notin> set v"
    by simp_all
  have 1: "sublist (''areas/'' @ area @ ''/'') line"
    unfolding l sublist_def by (rule exI [of _ "[]"], rule exI [of _ "v @ ''/tiles.btrfs.gz''"]) simp
  have 2: "sublist ''tiles.btrfs.gz'' line"
    unfolding l sublist_def
    by (rule exI [of _ "''areas/'' @ area @ ''/'' @ v @ ''/''"], rule exI [of _ "[]"]) simp
  have t: "split_on CHR ''/'' ''tiles.btrfs.gz'' = [''tiles.btrfs.gz'']"
    by (rule split_on_free) simp
  have "split_on CHR ''/'' line = ''areas'' # split_on CHR ''/'' (area @ CHR ''/'' # v @ ''/tiles.btrfs.gz'')"
    unfolding l using split_on_append [of "CHR ''/''" "''areas''"] by simp
  also have "split_on CHR ''/'' (area @ CHR ''/'' # v @ ''/tiles.btrfs.gz'')
       = area # split_on CHR ''/'' (v @ CHR ''/'' # ''tiles.btrfs.gz'')"
    using split_on_append [OF a] by simp
  also have "split_on CHR ''/'' (v @ CHR ''/'' # ''tiles.btrfs.gz'') = v # split_on CHR ''/'' ''tiles.btrfs.gz''"
    by (rule split_on_append [OF nv])
  finally show ?thesis using 1 2 t by (simp add: str_in_sublist)
qed

lemma collect_versions_spec:
  assumes a: "CHR ''/'' \<notin> set area"
    and wf: "\<And>l. l \<in> set lines \<Longrightarrow> str_in (''areas/'' @ area @ ''/'') l \<Longrightarrow> str_in ''tiles.btrfs.gz'' l
               \<Longrightarrow> spec_version_of area l \<noteq> None"
  shows "collect_versions area lines = List.map_filter (spec_version_of area) lines"
  using wf
proof (induction lines)
  case Nil
  then show ?case by (simp add: List.map_filter_simps)
next
  case (Cons l ls)
  have ih: "collect_versions area ls = List.map_filter (spec_version_of area) ls"
    using Cons by simp
  show ?case
  proof (cases "spec_version_of area l")
    case None
    then have "\<not> (str_in (''areas/'' @ area @ ''/'') l \<and> str_in ''tiles.btrfs.gz'' l)"
      using Cons.prems [of l] by auto
    then show ?thesis using None ih by (auto simp add: List.map_filter_simps)
  next
    case (Some v)
    from spec_line_parts [OF a Some] show ?thesis using Some ih
      by (simp add: List.map_filter_simps)
  qed
qed


lemma latest_of_response_max:
  "latest_of_response area (Response st body) =
       (let kept = filter (\<lambda>l. str_in (''areas/'' @ area @ ''/'') l \<and> str_in ''tiles.btrfs.gz'' l
                               \<and> length (split_on CHR ''/'' l) \<ge> 4) (split_on CHR 0x0A (strip body));
            vs = map (\<lambda>l. split_on CHR ''/'' l ! 2) kept in
        if raise_for_status st \<or> vs = [] then None else Some (Max (set vs)))"
  unfolding latest_of_response_def Let_def collect_versions_filter [symmetric]
  by (simp add: last_sort_Max)

lemma latest_of_response_well_formed:
  assumes "CHR ''/'' \<notin> set area" and "\<not> raise_for_status st"
    and "\<And>l. l \<in> set (split_on CHR 0x0A (strip body)) \<Longrightarrow>
           str_in (''areas/'' @ area @ ''/'') l \<Longrightarrow> str_in ''tiles.btrfs.gz'' l \<Longrightarrow>
           spec_version_of area l \<noteq> None"
  shows "latest_of_response area (Response st body)
           = spec_resolve_latest area (split_on CHR 0x0A (strip body))"
proof -
  have "collect_versions area (split_on CHR 0x0A (strip body))
      = List.map_filter (spec_version_of area) (split_on CHR 0x0A (strip body))"
    using assms by (intro collect_versions_spec) auto
  then show ?thesis
    using assms(2) by (simp add: latest_of_response_def spec_resolve_latest_def Let_def last_sort_Max)
qed

lemmas strip_defs = strip_def is_space_def space2_def space3_def

text \<open>
  Claim C3 does not hold of \<open>get_latest_version\<close>. The function keeps every line that
  contains \<open>areas/<area>/\<close> and \<open>tiles.btrfs.gz\<close> anywhere, not the lines of the form
  \<open>areas/<area>/<version>/tiles.btrfs.gz\<close>, and it always takes the third component
  between slashes as the version. On the three lines of the specification's example it
  returns \<open>20240102_000000\<close>. On a listing with the two lines
  \<open>areas/planet/20240102_000000/tiles.btrfs.gz\<close> and
  \<open>mirror/areas/planet/20240101_000000/tiles.btrfs.gz\<close> the second line is kept too, its
  third component is the area name, and the function returns \<open>planet\<close> as the latest
  version, where the greatest version of the lines of the stated form is
  \<open>20240102_000000\<close>.
\<close>

theorem get_latest_version_returns_area_name:
  "latest_of_response ''planet'' (Response 200
        (''areas/planet/20240101_000000/tiles.btrfs.gz'' @ [CHR 0x0A]
         @ ''areas/planet/20240102_000000/tiles.btrfs.gz'' @ [CHR 0x0A]
         @ ''areas/planet/20240101_120000/tiles.btrfs.gz'' @ [CHR 0x0A]))
       = Some ''20240102_000000''
   \<and> latest_of_response ''planet'' (Response 200
      (''areas/planet/20240102_000000/tiles.btrfs.gz'' @ [CHR 0x0A]
       @ ''mirror/areas/planet/20240101_000000/tiles.btrfs.gz'' @ [CHR 0x0A]))
     = Some ''planet''
   \<and> fst (get_latest_version
            (example_env\<lparr>http_get := \<lambda>url. Response 200
               (''areas/planet/20240102_000000/tiles.btrfs.gz'' @ [CHR 0x0A]
                @ ''mirror/areas/planet/20240101_000000/tiles.btrfs.gz'' @ [CHR 0x0A])\<rparr>)
            ''planet'' example_world)
     = Ret (Some ''planet'')
   \<and> spec_resolve_latest ''planet''
       [''areas/planet/20240102_000000/tiles.btrfs.gz'',
        ''mirror/areas/planet/20240101_000000/tiles.btrfs.gz'']
     = Some ''20240102_000000''"
proof (intro conjI)
  show "latest_of_response ''planet'' (Response 200
        (''areas/planet/20240101_000000/tiles.btrfs.gz'' @ [CHR 0x0A]
         @ ''areas/planet/20240102_000000/tiles.btrfs.gz'' @ [CHR 0x0A]
         @ ''areas/planet/20240101_120000/tiles.btrfs.gz'' @ [CHR 0x0A]))
       = Some ''20240102_000000''"
    by (simp add: latest_of_response_def raise_for_status_def strip_defs)
next
  show r: "latest_of_response ''planet'' (Response 200
      (''areas/planet/20240102_000000/tiles.btrfs.gz'' @ [CHR 0x0A]
       @ ''mirror/areas/planet/20240101_000000/tiles.btrfs.gz'' @ [CHR 0x0A]))
     = Some ''planet''"
    by (simp add: latest_of_response_def raise_for_status_def strip_defs)
  show "fst (get_latest_version
            (example_env\<lparr>http_get := \<lambda>url. Response 200
               (''areas/planet/20240102_000000/tiles.btrfs.gz'' @ [CHR 0x0A]
                @ ''mirror/areas/planet/20240101_000000/tiles.btrfs.gz'' @ [CHR 0x0A])\<rparr>)
            ''planet'' example_world)
     = Ret (Some ''planet'')"
    unfolding get_latest_version_def Let_def
    by (simp add: r raise_for_status_def seq_def bind_def ret_def log_request_def del: append.simps)
next
  show "spec_resolve_latest ''planet''
       [''areas/planet/20240102_000000/tiles.btrfs.gz'',
        ''mirror/areas/planet/20240101_000000/tiles.btrfs.gz'']
     = Some ''20240102_000000''"
    by (simp add: spec_resolve_latest_def spec_version_of_def suffix_def List.map_filter_simps)
qed

section \<open>What the steps of \<open>download_area\<close> do\<close>

lemma mkdir_parents_dir: "fs_is_dir (fs w) p \<Longrightarrow> mkdir_parents p w = (Ret (), w)"
proof (cases "rev p")
  case Nil
  then show ?thesis by (simp add: mkdir_parents_def fs_mkdir_parents_def)
next
  case (Cons c rp)
  assume d: "fs_is_dir (fs w) p"
  from Cons have p: "p = rev (c # rp)" by (metis rev_rev_ident)
  then have "p \<noteq> []" by simp
  with d have "map_of (fs w) (rev (c # rp)) = Some Dir" unfolding p fs_is_dir_def by simp
  then show ?thesis using Cons by (simp add: mkdir_parents_def fs_mkdir_parents_def)
qed




lemma get_remote_file_size_result:
  "get_remote_file_size e url w =
     (Ret (size_of_head (http_head e url)),
      w\<lparr>requests := requests w @ [HttpHead url],
        stdout := stdout w @
          (case http_head e url of
             HeadRaises \<Rightarrow> [ErrorLine ''Error getting file size'' RequestException]
           | HeadResponse st h \<Rightarrow>
               if st = 200 \<and> h = HeaderBad then [ErrorLine ''Error getting file size'' ValueError]
               else [])\<rparr>)"
  by (simp add: get_remote_file_size_def seq_def bind_def log_request_def print_def ret_def
      split: head_result.splits)

lemma check_disk_space_result:
  "check_disk_space free_space file_size w =
     (if file_size = 0
      then (Ret True, w\<lparr>stdout := stdout w @ [Line ''Warning: Could not determine remote file size'']\<rparr>)
      else if gb_overflows (int free_space) \<or> gb_overflows (file_size * 3)
      then (Raise OverflowError, w)
      else if int free_space < file_size * 3
      then (Ret False, w\<lparr>stdout := stdout w @ [SpaceCheck free_space (file_size * 3),
              Line ''ERROR: Not enough disk space'', FreeLine free_space, NeededLine (file_size * 3)]\<rparr>)
      else (Ret True, w\<lparr>stdout := stdout w @ [SpaceCheck free_space (file_size * 3)]\<rparr>))"
  by (simp add: check_disk_space_def seq_def bind_def print_def ret_def raise_def Let_def)

lemma gb_overflows_small: "\<bar>n\<bar> < 2 ^ 64 \<Longrightarrow> \<not> gb_overflows n"
proof -
  have "(2::int) ^ 64 \<le> 2 ^ 1054 - 2 ^ 1000" by simp
  then show "\<bar>n\<bar> < 2 ^ 64 \<Longrightarrow> \<not> gb_overflows n" unfolding gb_overflows_def by linarith
qed

lemma get_latest_version_result:
  "get_latest_version e area w =
     (Ret (latest_of_response area (http_get e (btrfs_cdn_url e @ ''/files.txt''))),
      w\<lparr>requests := requests w @ [HttpGet (btrfs_cdn_url e @ ''/files.txt'')],
        stdout := stdout w @
          (case http_get e (btrfs_cdn_url e @ ''/files.txt'') of
             GetRaises \<Rightarrow> [ErrorLine ''Error fetching versions'' RequestException]
           | Response st body \<Rightarrow>
               if raise_for_status st then [ErrorLine ''Error fetching versions'' RequestException]
               else if latest_of_response area (Response st body) = None
               then [Line (''No versions found for '' @ area)] else [])\<rparr>)"
  by (simp add: get_latest_version_def Let_def seq_def bind_def log_request_def print_def ret_def
      split: get_result.splits)

lemma download_area_resolved:
  assumes root: "fs_is_dir (fs w) (Path output)"
    and res: "(version \<noteq> ''latest'' \<and> v = version)
              \<or> (version = ''latest''
                  \<and> latest_of_response area (http_get e (btrfs_cdn_url e @ ''/files.txt'')) = Some v
                  \<and> v \<noteq> [])"
  shows "download_area e area version output w =
     (let w0 = (if version = ''latest''
                then w\<lparr>requests := requests w @ [HttpGet (btrfs_cdn_url e @ ''/files.txt'')]\<rparr>
                else w);
          output_dir = Path output;
          area_version_dir = pjoin (pjoin output_dir area) v;
          btrfs_file = pjoin area_version_dir ''tiles.btrfs'' in
      if fs_exists (fs w) btrfs_file
      then (Ret True, w0\<lparr>stdout := stdout w @ [Line (''Btrfs file already exists: '' @ path_str btrfs_file)]\<rparr>)
      else
        (let temp_dir = pjoin output_dir ''_tmp'';
             url = btrfs_cdn_url e @ ''/areas/'' @ area @ ''/'' @ v @ ''/tiles.btrfs.gz'' in
         seq (mkdir_parents temp_dir)
           (bind (get_remote_file_size e url)
              (\<lambda>file_size.
                 bind (check_disk_space (free_bytes e temp_dir) file_size)
                   (\<lambda>enough.
                      if \<not> enough then ret False
                      else fetch_and_place e url temp_dir area_version_dir btrfs_file))) w0))"
proof (cases "version = ''latest''")
  case True
  with res have l: "latest_of_response area (http_get e (btrfs_cdn_url e @ ''/files.txt'')) = Some v"
    and v: "v \<noteq> []" by auto
  have nop: "(case http_get e (btrfs_cdn_url e @ ''/files.txt'') of
             GetRaises \<Rightarrow> [ErrorLine ''Error fetching versions'' RequestException]
           | Response st body \<Rightarrow>
               if raise_for_status st then [ErrorLine ''Error fetching versions'' RequestException]
               else if latest_of_response area (Response st body) = None
               then [Line (''No versions found for '' @ area)] else []) = []"
  proof (cases "http_get e (btrfs_cdn_url e @ ''/files.txt'')")
    case GetRaises
    with l show ?thesis by (simp add: latest_of_response_def)
  next
    case (Response st body)
    with l have "\<not> raise_for_status st" by (auto simp: latest_of_response_def split: if_splits)
    with l Response show ?thesis by simp
  qed
  show ?thesis
    unfolding download_area_def Let_def
    using True l v
    by (simp add: seq_def bind_def mkdir_parents_dir [OF root] get_latest_version_result nop
        path_exists_def print_def ret_def)
next
  case False
  with res have v: "v = version" by auto
  show ?thesis
    unfolding download_area_def Let_def v
    using False
    by (simp add: seq_def bind_def mkdir_parents_dir [OF root] path_exists_def print_def ret_def)
qed

section \<open>The disk space check\<close>



section \<open>The skip when the image is already in place\<close>

lemma exists_and_nonempty_result:
  "fs_is_dir (fs w) d \<Longrightarrow> exists_and_nonempty d w = (Ret (fs_children (fs w) d \<noteq> []), w)"
  by (auto simp: exists_and_nonempty_def bind_def path_exists_def iterdir_def ret_def
      fs_exists_def fs_is_dir_def)

lemma download_area_unresolved:
  assumes root: "fs_is_dir (fs w) (Path output)"
    and res: "latest_of_response area (http_get e (btrfs_cdn_url e @ ''/files.txt'')) = None
              \<or> latest_of_response area (http_get e (btrfs_cdn_url e @ ''/files.txt'')) = Some []"
  shows "download_area e area ''latest'' output w =
         (Ret False,
          w\<lparr>requests := requests w @ [HttpGet (btrfs_cdn_url e @ ''/files.txt'')],
            stdout := stdout (snd (get_latest_version e area w))
                 @ [Line (''Failed to determine latest version for '' @ area)]\<rparr>)"
  unfolding download_area_def Let_def
  using res
  by (auto simp add: seq_def bind_def mkdir_parents_dir [OF root] get_latest_version_result
      print_def ret_def)

text \<open>
  Claim C2, as the code has it. When the output directory is there and the image of the
  resolved version is in place, \<open>download_area\<close> returns \<open>True\<close> and changes neither the
  file system nor the devices. With an explicit version it makes no remote call at all.
  With \<open>latest\<close> it fetches the listing first, to know the version, and the image in place
  is not looked at before: when the listing gives a version whose image is in place, the
  call returns \<open>True\<close> with no other remote call; when the listing cannot be fetched,
  comes with an error status or names no version of the area, the call returns \<open>False\<close>
  after that one request, whatever is in place, and changes nothing but the lines
  printed. \<open>download_asset\<close> returns \<open>True\<close> without any remote call and without any
  change when the asset's \<open>ofm\<close> directory is there and not empty.
\<close>

theorem download_skips_what_is_in_place:
  "(fs_is_dir (fs w) (Path output)
    \<and> ((version \<noteq> ''latest'' \<and> v = version)
        \<or> (version = ''latest''
            \<and> latest_of_response area (http_get e (btrfs_cdn_url e @ ''/files.txt'')) = Some v
            \<and> v \<noteq> []))
    \<and> fs_exists (fs w) (pjoin (pjoin (pjoin (Path output) area) v) ''tiles.btrfs'')
    \<longrightarrow> download_area e area version output w =
         (Ret True,
          w\<lparr>requests := requests w
                 @ (if version = ''latest'' then [HttpGet (btrfs_cdn_url e @ ''/files.txt'')] else []),
            stdout := stdout w
                 @ [Line (''Btrfs file already exists: ''
                          @ path_str (pjoin (pjoin (pjoin (Path output) area) v) ''tiles.btrfs''))]\<rparr>))
   \<and> (fs_is_dir (fs w) (Path output)
      \<and> (latest_of_response area (http_get e (btrfs_cdn_url e @ ''/files.txt'')) = None
         \<or> latest_of_response area (http_get e (btrfs_cdn_url e @ ''/files.txt'')) = Some [])
      \<longrightarrow> download_area e area ''latest'' output w =
           (Ret False,
            w\<lparr>requests := requests w @ [HttpGet (btrfs_cdn_url e @ ''/files.txt'')],
              stdout := stdout (snd (get_latest_version e area w))
                   @ [Line (''Failed to determine latest version for '' @ area)]\<rparr>))
   \<and> (fs_is_dir (fs w) (pjoin (Path assets) asset_name)
      \<and> fs_is_dir (fs w) (pjoin (pjoin (Path assets) asset_name) ''ofm'')
      \<and> fs_children (fs w) (pjoin (pjoin (Path assets) asset_name) ''ofm'') \<noteq> []
      \<longrightarrow> download_asset e asset_name assets w =
           (Ret True,
            w\<lparr>stdout := stdout w @ [Line (''Asset '' @ asset_name @ '' already exists, skipping'')]\<rparr>))"
proof (intro conjI impI)
  assume h: "fs_is_dir (fs w) (Path output)
    \<and> ((version \<noteq> ''latest'' \<and> v = version)
        \<or> (version = ''latest''
            \<and> latest_of_response area (http_get e (btrfs_cdn_url e @ ''/files.txt'')) = Some v
            \<and> v \<noteq> []))
    \<and> fs_exists (fs w) (pjoin (pjoin (pjoin (Path output) area) v) ''tiles.btrfs'')"
  then have root: "fs_is_dir (fs w) (Path output)"
    and res: "(version \<noteq> ''latest'' \<and> v = version)
        \<or> (version = ''latest''
            \<and> latest_of_response area (http_get e (btrfs_cdn_url e @ ''/files.txt'')) = Some v
            \<and> v \<noteq> [])"
    and there: "fs_exists (fs w) (pjoin (pjoin (pjoin (Path output) area) v) ''tiles.btrfs'')"
    by blast+
  show "download_area e area version output w =
         (Ret True,
          w\<lparr>requests := requests w
                 @ (if version = ''latest'' then [HttpGet (btrfs_cdn_url e @ ''/files.txt'')] else []),
            stdout := stdout w
                 @ [Line (''Btrfs file already exists: ''
                          @ path_str (pjoin (pjoin (pjoin (Path output) area) v) ''tiles.btrfs''))]\<rparr>)"
    using download_area_resolved [OF root res] there by (simp add: Let_def)
next
  assume h: "fs_is_dir (fs w) (Path output)
      \<and> (latest_of_response area (http_get e (btrfs_cdn_url e @ ''/files.txt'')) = None
         \<or> latest_of_response area (http_get e (btrfs_cdn_url e @ ''/files.txt'')) = Some [])"
  then have root: "fs_is_dir (fs w) (Path output)"
    and res: "latest_of_response area (http_get e (btrfs_cdn_url e @ ''/files.txt'')) = None
         \<or> latest_of_response area (http_get e (btrfs_cdn_url e @ ''/files.txt'')) = Some []"
    by blast+
  show "download_area e area ''latest'' output w =
           (Ret False,
            w\<lparr>requests := requests w @ [HttpGet (btrfs_cdn_url e @ ''/files.txt'')],
              stdout := stdout (snd (get_latest_version e area w))
                   @ [Line (''Failed to determine latest version for '' @ area)]\<rparr>)"
    by (rule download_area_unresolved [OF root res])
next
  assume h: "fs_is_dir (fs w) (pjoin (Path assets) asset_name)
      \<and> fs_is_dir (fs w) (pjoin (pjoin (Path assets) asset_name) ''ofm'')
      \<and> fs_children (fs w) (pjoin (pjoin (Path assets) asset_name) ''ofm'') \<noteq> []"
  then show "download_asset e asset_name assets w =
           (Ret True,
            w\<lparr>stdout := stdout w @ [Line (''Asset '' @ asset_name @ '' already exists, skipping'')]\<rparr>)"
    by (simp add: download_asset_def Let_def seq_def bind_def mkdir_parents_dir
        exists_and_nonempty_result print_def ret_def)
qed

theorem download_skips_what_is_in_place_witness:
  "download_area example_env ''planet'' ''20240102_000000'' ''/data/btrfs'' example_world =
     (Ret True,
      example_world\<lparr>stdout :=
        [Line ''Btrfs file already exists: /data/btrfs/planet/20240102_000000/tiles.btrfs'']\<rparr>)
   \<and> download_area example_env ''planet'' ''latest'' ''/data/btrfs'' example_world =
     (Ret True,
      example_world\<lparr>requests := [HttpGet ''https://btrfs.openfreemap.com/files.txt''],
        stdout :=
        [Line ''Btrfs file already exists: /data/btrfs/planet/20240102_000000/tiles.btrfs'']\<rparr>)
   \<and> download_area (example_env\<lparr>http_get := \<lambda>u. GetRaises\<rparr>) ''planet'' ''latest''
        ''/data/btrfs'' example_world =
     (Ret False,
      example_world\<lparr>requests := [HttpGet ''https://btrfs.openfreemap.com/files.txt''],
        stdout := [ErrorLine ''Error fetching versions'' RequestException,
                   Line ''Failed to determine latest version for planet'']\<rparr>)
   \<and> download_asset example_env ''btrfs'' ''/data''
        (example_world\<lparr>fs := fs example_world @ [([''/'', ''data'', ''btrfs'', ''ofm''], Dir),
                                                 ([''/'', ''data'', ''btrfs'', ''ofm'', ''x''], Dir)]\<rparr>) =
     (Ret True,
      example_world\<lparr>fs := fs example_world @ [([''/'', ''data'', ''btrfs'', ''ofm''], Dir),
                                                 ([''/'', ''data'', ''btrfs'', ''ofm'', ''x''], Dir)],
                    stdout := [Line ''Asset btrfs already exists, skipping'']\<rparr>)"
proof -
  let ?w = "example_world\<lparr>fs := fs example_world @ [([''/'', ''data'', ''btrfs'', ''ofm''], Dir),
                                                 ([''/'', ''data'', ''btrfs'', ''ofm'', ''x''], Dir)]\<rparr>"
  let ?down = "example_env\<lparr>http_get := \<lambda>u. GetRaises\<rparr>"
  have cdn: "btrfs_cdn_url example_env = ''https://btrfs.openfreemap.com''"
    "btrfs_cdn_url ?down = ''https://btrfs.openfreemap.com''"
    by (simp_all add: example_env_def)
  have listed: "latest_of_response ''planet''
                 (http_get example_env (btrfs_cdn_url example_env @ ''/files.txt''))
               = Some ''20240102_000000''"
    by (simp add: example_env_def latest_of_response_def raise_for_status_def strip_defs)
  have root: "fs_is_dir (fs example_world) (Path ''/data/btrfs'')"
    by (simp add: example_world_def fs_is_dir_def Path_def)
  have there: "fs_exists (fs example_world)
        (pjoin (pjoin (pjoin (Path ''/data/btrfs'') ''planet'') ''20240102_000000'') ''tiles.btrfs'')"
    by (simp add: example_world_def fs_exists_def Path_def pjoin_def)
  have h2: "fs_is_dir (fs ?w) (pjoin (Path ''/data'') ''btrfs'')
      \<and> fs_is_dir (fs ?w) (pjoin (pjoin (Path ''/data'') ''btrfs'') ''ofm'')
      \<and> fs_children (fs ?w) (pjoin (pjoin (Path ''/data'') ''btrfs'') ''ofm'') \<noteq> []"
    by (simp add: example_world_def fs_is_dir_def fs_children_def Path_def pjoin_def)
  have p: "path_str (pjoin (pjoin (pjoin (Path ''/data/btrfs'') ''planet'') ''20240102_000000'')
             ''tiles.btrfs'') = ''/data/btrfs/planet/20240102_000000/tiles.btrfs''"
    by (simp add: path_str_def Path_def pjoin_def)
  have rq: "requests example_world = []" "stdout example_world = []"
    by (simp_all add: example_world_def)
  have failed: "latest_of_response ''planet'' (http_get ?down (btrfs_cdn_url ?down @ ''/files.txt''))
                  = None"
    by (simp add: latest_of_response_def)
  have said: "stdout (snd (get_latest_version ?down ''planet'' example_world))
                = [ErrorLine ''Error fetching versions'' RequestException]"
    by (simp add: get_latest_version_result rq)
  from download_skips_what_is_in_place
         [of example_world "''/data/btrfs''" "''20240102_000000''" "''20240102_000000''"
             "''planet''" example_env]
       root there
  have a: "download_area example_env ''planet'' ''20240102_000000'' ''/data/btrfs'' example_world =
     (Ret True,
      example_world\<lparr>stdout :=
        [Line ''Btrfs file already exists: /data/btrfs/planet/20240102_000000/tiles.btrfs'']\<rparr>)"
    unfolding p rq by (simp add: example_world_def)
  from download_skips_what_is_in_place
         [of example_world "''/data/btrfs''" "''latest''" "''20240102_000000''"
             "''planet''" example_env]
       root there listed
  have b: "download_area example_env ''planet'' ''latest'' ''/data/btrfs'' example_world =
     (Ret True,
      example_world\<lparr>requests := [HttpGet ''https://btrfs.openfreemap.com/files.txt''],
        stdout :=
        [Line ''Btrfs file already exists: /data/btrfs/planet/20240102_000000/tiles.btrfs'']\<rparr>)"
    unfolding p rq cdn by simp
  from download_skips_what_is_in_place
         [of example_world "''/data/btrfs''" _ _ "''planet''" ?down]
       root failed
  have c: "download_area ?down ''planet'' ''latest'' ''/data/btrfs'' example_world =
     (Ret False,
      example_world\<lparr>requests := [HttpGet ''https://btrfs.openfreemap.com/files.txt''],
        stdout := [ErrorLine ''Error fetching versions'' RequestException,
                   Line ''Failed to determine latest version for planet'']\<rparr>)"
    unfolding said rq cdn by simp
  from download_skips_what_is_in_place
         [of ?w _ _ _ _ example_env "''/data''" "''btrfs''"]
       h2
  have d: "download_asset example_env ''btrfs'' ''/data'' ?w =
     (Ret True, ?w\<lparr>stdout := [Line ''Asset btrfs already exists, skipping'']\<rparr>)"
    using rq by (simp add: example_world_def)
  from a b c d show ?thesis by simp
qed

text \<open>
  Claim C2 as the specification states it fails for the version \<open>latest\<close>: the image of
  the latest version is in place, and the call still asks the server for the listing
  before it looks for the image; when that request fails the call returns \<open>False\<close>.
\<close>

theorem download_area_latest_asks_listing_counterexample:
  "fs_exists (fs example_world)
     [''/'', ''data'', ''btrfs'', ''planet'', ''20240102_000000'', ''tiles.btrfs'']
   \<and> requests example_world = []
   \<and> fst (download_area example_env ''planet'' ''latest'' ''/data/btrfs'' example_world) = Ret True
   \<and> requests (snd (download_area example_env ''planet'' ''latest'' ''/data/btrfs'' example_world))
       = [HttpGet ''https://btrfs.openfreemap.com/files.txt'']
   \<and> fst (download_area (example_env\<lparr>http_get := \<lambda>u. GetRaises\<rparr>) ''planet'' ''latest''
             ''/data/btrfs'' example_world) = Ret False"
  by (simp add: example_world_def example_env_def fs_exists_def download_area_def Let_def
      seq_def bind_def ret_def print_def path_exists_def mkdir_parents_def fs_mkdir_parents_def
      get_latest_version_def log_request_def latest_of_response_def raise_for_status_def
      strip_defs Path_def pjoin_def)

section \<open>Where the downloads are staged\<close>

lemma addsI:
  assumes "\<And>w. \<exists>rs. requests (snd (m w)) = requests w @ rs \<and> list_all P rs"
  shows "adds P m"
  using assms by (simp add: adds_def)

lemma adds_same:
  assumes "\<And>w. requests (snd (m w)) = requests w"
  shows "adds P m"
  by (rule addsI) (simp add: assms)

lemma adds_ret: "adds P (ret x)"
  by (rule adds_same) (simp add: ret_def)

lemma adds_raise: "adds P (raise x)"
  by (rule adds_same) (simp add: raise_def)

lemma adds_bind:
  assumes m: "adds P m" and k: "\<And>x. adds P (k x)"
  shows "adds P (bind m k)"
proof (rule addsI)
  fix w
  from m obtain rs where rs: "requests (snd (m w)) = requests w @ rs" "list_all P rs"
    by (auto simp: adds_def)
  show "\<exists>rs. requests (snd (bind m k w)) = requests w @ rs \<and> list_all P rs"
  proof (cases "m w")
    case (Pair r w1)
    show ?thesis
    proof (cases r)
      case (Ret x)
      from k [of x] obtain rs' where rs': "requests (snd (k x w1)) = requests w1 @ rs'" "list_all P rs'"
        by (auto simp: adds_def)
      from Pair rs have "requests w1 = requests w @ rs" by simp
      with rs' rs Pair Ret have "requests (snd (bind m k w)) = requests w @ (rs @ rs')"
        "list_all P (rs @ rs')" by (simp_all add: bind_def)
      then show ?thesis by blast
    next
      case (Raise x)
      with Pair rs show ?thesis by (auto simp: bind_def)
    qed
  qed
qed

lemma adds_seq: "adds P m \<Longrightarrow> adds P k \<Longrightarrow> adds P (seq m k)"
  unfolding seq_def by (rule adds_bind)

lemma adds_try_except:
  assumes m: "adds P m" and h: "\<And>x. adds P (h x)"
  shows "adds P (try_except m h)"
proof (rule addsI)
  fix w
  from m obtain rs where rs: "requests (snd (m w)) = requests w @ rs" "list_all P rs"
    by (auto simp: adds_def)
  show "\<exists>rs. requests (snd (try_except m h w)) = requests w @ rs \<and> list_all P rs"
  proof (cases "m w")
    case (Pair r w1)
    show ?thesis
    proof (cases r)
      case (Raise x)
      from h [of x] obtain rs' where rs': "requests (snd (h x w1)) = requests w1 @ rs'" "list_all P rs'"
        by (auto simp: adds_def)
      from Pair rs have "requests w1 = requests w @ rs" by simp
      with rs' rs Pair Raise have "requests (snd (try_except m h w)) = requests w @ (rs @ rs')"
        "list_all P (rs @ rs')" by (simp_all add: try_except_def)
      then show ?thesis by blast
    next
      case (Ret x)
      with Pair rs show ?thesis by (auto simp: try_except_def)
    qed
  qed
qed

lemma adds_if: "adds P a \<Longrightarrow> adds P b \<Longrightarrow> adds P (if c then a else b)"
  by simp

lemma adds_case_option:
  "adds P a \<Longrightarrow> (\<And>v. adds P (b v)) \<Longrightarrow> adds P (case x of None \<Rightarrow> a | Some v \<Rightarrow> b v)"
  by (cases x) simp_all

lemma adds_log_request: "P r \<Longrightarrow> adds P (log_request r)"
  by (rule addsI) (simp add: log_request_def)

lemma adds_print: "adds P (print m)"
  by (rule adds_same) (simp add: print_def)

lemma adds_set_fs: "adds P (set_fs f)"
  by (rule adds_same) (simp add: set_fs_def)

lemma adds_path_exists: "adds P (path_exists p)"
  by (rule adds_same) (simp add: path_exists_def)

lemma adds_iterdir: "adds P (iterdir p)"
  by (rule adds_same) (simp add: iterdir_def)

lemma adds_mkdir_parents: "adds P (mkdir_parents p)"
  by (rule adds_same) (simp add: mkdir_parents_def set_fs_def split: sum.splits)

lemma adds_write_file: "adds P (write_file p c)"
  by (rule adds_same) (simp add: write_file_def set_fs_def)

lemma adds_unlink: "adds P (unlink p)"
  by (rule adds_same) (simp add: unlink_def set_fs_def split: option.splits node.splits)

lemma adds_rename_file: "adds P (rename_file p q)"
  by (rule adds_same) (simp add: rename_file_def set_fs_def split: option.splits node.splits)

lemma adds_run_unpigz: "adds P (run_unpigz e p)"
  by (rule adds_same) (simp add: run_unpigz_def set_fs_def split: option.splits node.splits)

lemma adds_run_rm_rf: "adds P (run_rm_rf e p)"
  by (rule adds_same) (simp add: run_rm_rf_def set_fs_def)

lemma copy_entries_requests: "requests (snd (copy_entries dst entries w)) = requests w"
  by (induction entries arbitrary: w) (auto simp: ret_def seq_def bind_def set_fs_def)

lemma adds_copy_entries: "adds P (copy_entries dst entries)"
  by (rule adds_same) (rule copy_entries_requests)

lemma adds_extract_tar_gz: "adds P (extract_tar_gz e a d)"
  by (rule adds_same)
     (simp add: extract_tar_gz_def copy_entries_requests split: option.splits node.splits)

lemma adds_run_aria2c: "P (Aria2c url p) \<Longrightarrow> adds P (run_aria2c e url p)"
  unfolding run_aria2c_def
  by (cases "aria2c_run e url")
     (auto intro!: adds_seq adds_log_request adds_case_option adds_ret adds_write_file adds_raise)

lemma adds_get_remote_file_size: "P (HttpHead url) \<Longrightarrow> adds P (get_remote_file_size e url)"
  by (rule addsI) (simp add: get_remote_file_size_result)

lemma adds_get_latest_version:
  "P (HttpGet (btrfs_cdn_url e @ ''/files.txt'')) \<Longrightarrow> adds P (get_latest_version e area)"
  by (rule addsI) (simp add: get_latest_version_result)

lemma adds_check_disk_space: "adds P (check_disk_space free n)"
  by (rule adds_same) (simp add: check_disk_space_result)

lemma adds_exists_and_nonempty: "adds P (exists_and_nonempty d)"
  unfolding exists_and_nonempty_def
  by (intro adds_bind adds_path_exists adds_if adds_iterdir adds_ret)

lemma adds_for_each: "(\<And>x. adds P (body x)) \<Longrightarrow> adds P (for_each body xs)"
  by (induction xs) (auto intro: adds_ret adds_seq)

lemma adds_fetch_and_place:
  "adds (downloads_to (pjoin t ''tiles.btrfs.gz'')) (fetch_and_place e url t d b)"
  unfolding fetch_and_place_def Let_def download_file_aria2_def
  by (intro adds_seq adds_run_aria2c adds_run_unpigz adds_mkdir_parents adds_rename_file
        adds_run_rm_rf adds_ret)
     (simp add: downloads_to_def)

lemma adds_download_area:
  "adds (downloads_to (pjoin (pjoin (Path output) ''_tmp'') ''tiles.btrfs.gz''))
     (download_area e area version output)"
  unfolding download_area_def Let_def
  by (intro adds_seq adds_bind adds_if adds_case_option adds_mkdir_parents adds_get_latest_version
        adds_ret adds_print adds_path_exists adds_get_remote_file_size adds_check_disk_space
        adds_fetch_and_place)
     (simp_all add: downloads_to_def)

lemma adds_download_sprite:
  "adds (downloads_to (pjoin d ''temp.tar.gz'')) (download_sprite e d line)"
  unfolding download_sprite_def Let_def download_file_def
  by (intro adds_seq adds_bind adds_if adds_try_except adds_exists_and_nonempty adds_print
        adds_mkdir_parents adds_run_aria2c adds_extract_tar_gz adds_unlink)
     (simp add: downloads_to_def)

lemma adds_download_sprites:
  "adds (downloads_to (pjoin (pjoin (Path assets) ''sprites'') ''temp.tar.gz''))
     (download_sprites e assets)"
  unfolding download_sprites_def Let_def
  by (cases "http_get e (assets_cdn_url e @ ''/files.txt'')")
     (auto intro!: adds_seq adds_try_except adds_mkdir_parents adds_log_request adds_raise
        adds_for_each adds_download_sprite adds_ret adds_print simp: downloads_to_def)

text \<open>
  Claim C9, as the code has it. Whatever the area and the version, every download that
  \<open>download_area\<close> starts writes to \<open>tiles.btrfs.gz\<close> in the directory \<open>_tmp\<close> of the
  output root, and every download that \<open>download_sprites\<close> starts writes to
  \<open>temp.tar.gz\<close> in the sprites directory: the staging paths are computed from the root
  alone and are the same for all pairs below it.
\<close>

theorem staging_paths_come_from_the_root:
  "(\<exists>rs. requests (snd (download_area e area version output w)) = requests w @ rs
         \<and> list_all (downloads_to (pjoin (pjoin (Path output) ''_tmp'') ''tiles.btrfs.gz'')) rs)
   \<and> (\<exists>rs. requests (snd (download_sprites e assets w)) = requests w @ rs
         \<and> list_all (downloads_to (pjoin (pjoin (Path assets) ''sprites'') ''temp.tar.gz'')) rs)
   \<and> pjoin (pjoin (Path output) ''_tmp'') ''tiles.btrfs.gz'' = Path output @ [''_tmp'', ''tiles.btrfs.gz'']
   \<and> pjoin (pjoin (Path assets) ''sprites'') ''temp.tar.gz'' = Path assets @ [''sprites'', ''temp.tar.gz'']"
  using adds_download_area [of "output" e area version] adds_download_sprites [of assets e]
  by (simp add: adds_def pjoin_def Path_def)

theorem staging_paths_come_from_the_root_witness:
  "requests (snd (download_area (example_env\<lparr>free_bytes := \<lambda>p. 20 * 1024 ^ 3\<rparr>)
                    ''planet'' ''20240101_000000'' ''/data/btrfs'' example_world))
     = [HttpHead ''https://btrfs.openfreemap.com/areas/planet/20240101_000000/tiles.btrfs.gz'',
        Aria2c ''https://btrfs.openfreemap.com/areas/planet/20240101_000000/tiles.btrfs.gz''
          [''/'', ''data'', ''btrfs'', ''_tmp'', ''tiles.btrfs.gz'']]
   \<and> downloads_to [''/'', ''data'', ''btrfs'', ''_tmp'', ''tiles.btrfs.gz'']
        (Aria2c ''https://btrfs.openfreemap.com/areas/planet/20240101_000000/tiles.btrfs.gz''
          [''/'', ''data'', ''btrfs'', ''_tmp'', ''tiles.btrfs.gz''])"
proof -
  let ?e = "example_env\<lparr>free_bytes := \<lambda>p. 20 * 1024 ^ 3\<rparr>"
  have run: "requests (snd (download_area ?e ''planet'' ''20240101_000000'' ''/data/btrfs'' example_world))
     = [HttpHead ''https://btrfs.openfreemap.com/areas/planet/20240101_000000/tiles.btrfs.gz'',
        Aria2c ''https://btrfs.openfreemap.com/areas/planet/20240101_000000/tiles.btrfs.gz''
          [''/'', ''data'', ''btrfs'', ''_tmp'', ''tiles.btrfs.gz'']]"
    by (simp add: example_world_def example_env_def download_area_def fetch_and_place_def Let_def
        seq_def bind_def ret_def raise_def print_def path_exists_def fs_exists_def fs_is_dir_def
        mkdir_parents_def fs_mkdir_parents_def set_fs_def get_remote_file_size_def size_of_head_def
        check_disk_space_def gb_overflows_small log_request_def download_file_aria2_def run_aria2c_def write_file_def
        run_unpigz_def rename_file_def run_rm_rf_def fs_rm_rf_def path_parent_def path_name_def
        Path_def pjoin_def)
  from staging_paths_come_from_the_root
         [of ?e "''planet''" "''20240101_000000''" "''/data/btrfs''" example_world "''/data/assets''"]
  obtain rs where rs: "requests (snd (download_area ?e ''planet'' ''20240101_000000'' ''/data/btrfs''
                         example_world)) = requests example_world @ rs"
    and all: "list_all (downloads_to (pjoin (pjoin (Path ''/data/btrfs'') ''_tmp'') ''tiles.btrfs.gz'')) rs"
    by blast
  have "requests example_world = []" by (simp add: example_world_def)
  with rs run have "rs = [HttpHead ''https://btrfs.openfreemap.com/areas/planet/20240101_000000/tiles.btrfs.gz'',
        Aria2c ''https://btrfs.openfreemap.com/areas/planet/20240101_000000/tiles.btrfs.gz''
          [''/'', ''data'', ''btrfs'', ''_tmp'', ''tiles.btrfs.gz'']]" by simp
  with all have "downloads_to [''/'', ''data'', ''btrfs'', ''_tmp'', ''tiles.btrfs.gz'']
        (Aria2c ''https://btrfs.openfreemap.com/areas/planet/20240101_000000/tiles.btrfs.gz''
          [''/'', ''data'', ''btrfs'', ''_tmp'', ''tiles.btrfs.gz''])"
    by (simp add: pjoin_def Path_def)
  with run show ?thesis by simp
qed

text \<open>
  Claim C9 as the specification states it fails: the acquisitions of two different pairs
  under one output root stage in the same directory and download to the same temporary
  archive path.
\<close>

theorem staging_shared_by_two_pairs_counterexample:
  "(''planet'', ''20240101_000000'') \<noteq> (''monaco'', ''20240103_000000'')
   \<and> requests (snd (download_area (example_env\<lparr>free_bytes := \<lambda>p. 20 * 1024 ^ 3\<rparr>)
                    ''planet'' ''20240101_000000'' ''/data/btrfs'' example_world))
     = [HttpHead ''https://btrfs.openfreemap.com/areas/planet/20240101_000000/tiles.btrfs.gz'',
        Aria2c ''https://btrfs.openfreemap.com/areas/planet/20240101_000000/tiles.btrfs.gz''
          [''/'', ''data'', ''btrfs'', ''_tmp'', ''tiles.btrfs.gz'']]
   \<and> requests (snd (download_area (example_env\<lparr>free_bytes := \<lambda>p. 20 * 1024 ^ 3\<rparr>)
                    ''monaco'' ''20240103_000000'' ''/data/btrfs'' example_world))
     = [HttpHead ''https://btrfs.openfreemap.com/areas/monaco/20240103_000000/tiles.btrfs.gz'',
        Aria2c ''https://btrfs.openfreemap.com/areas/monaco/20240103_000000/tiles.btrfs.gz''
          [''/'', ''data'', ''btrfs'', ''_tmp'', ''tiles.btrfs.gz'']]
   \<and> hd (history (snd (download_area (example_env\<lparr>free_bytes := \<lambda>p. 20 * 1024 ^ 3\<rparr>)
                    ''planet'' ''20240101_000000'' ''/data/btrfs'' example_world)))
     = fs example_world @ [([''/'', ''data'', ''btrfs'', ''_tmp''], Dir)]
   \<and> hd (history (snd (download_area (example_env\<lparr>free_bytes := \<lambda>p. 20 * 1024 ^ 3\<rparr>)
                    ''monaco'' ''20240103_000000'' ''/data/btrfs'' example_world)))
     = fs example_world @ [([''/'', ''data'', ''btrfs'', ''_tmp''], Dir)]"
  by (simp add: example_world_def example_env_def download_area_def fetch_and_place_def Let_def
        seq_def bind_def ret_def raise_def print_def path_exists_def fs_exists_def fs_is_dir_def
        mkdir_parents_def fs_mkdir_parents_def set_fs_def get_remote_file_size_def size_of_head_def
        check_disk_space_def gb_overflows_small log_request_def download_file_aria2_def run_aria2c_def write_file_def
        run_unpigz_def rename_file_def run_rm_rf_def fs_rm_rf_def path_parent_def path_name_def
        Path_def pjoin_def)

section \<open>Extraction: interruption and cleanup\<close>

lemmas prog_defs = seq_def bind_def ret_def raise_def try_except_def print_def set_fs_def
  log_request_def path_exists_def mkdir_parents_def fs_mkdir_parents_def iterdir_def
  write_file_def unlink_def rename_file_def
lemmas fs_defs = fs_exists_def fs_is_dir_def fs_children_def fs_below_def fs_rm_rf_def
  Path_def pjoin_def path_str_def path_name_def path_parent_def
lemmas extract_defs = extract_tiles_def with_temporary_directory_def temp_cleanup_def
  mount_copy_unmount_def mount_btrfs_def run_losetup_find_def run_losetup_attach_def
  run_mount_def copy_tiles_def run_rsync_def copy2_def unmount_btrfs_def run_umount_def
  run_losetup_detach_def strip_defs

lemma run_fail:
  "(case extract_tiles (example_env\<lparr>rsync_copies := Some 1\<rparr>)
              ''/data/btrfs/planet/20240102_000000/tiles.btrfs'' ''/data/tiles''
              ''planet'' ''20240102_000000'' example_world of
      (r, w) \<Rightarrow> (r, fs w, loop_devices w, mounts w)) =
   (Ret False,
    [([''/''], Dir), ([''/'', ''tmp''], Dir), ([''/'', ''data''], Dir),
     ([''/'', ''data'', ''btrfs''], Dir),
     ([''/'', ''data'', ''btrfs'', ''planet''], Dir),
     ([''/'', ''data'', ''btrfs'', ''planet'', ''20240102_000000''], Dir),
     ([''/'', ''data'', ''btrfs'', ''planet'', ''20240102_000000'', ''tiles.btrfs''], File ''image''),
     ([''/'', ''data'', ''tiles''], Dir),
     ([''/'', ''data'', ''tiles'', ''planet''], Dir),
     ([''/'', ''data'', ''tiles'', ''planet'', ''20240102_000000''], Dir),
     ([''/'', ''data'', ''tiles'', ''planet'', ''20240102_000000'', ''tiles''], Dir),
     ([''/'', ''data'', ''tiles'', ''planet'', ''20240102_000000'', ''tiles'', ''0.pbf''], File ''tile0'')],
    [], [])"
  by (simp add: example_env_def example_world_def Let_def prog_defs fs_defs extract_defs)


lemma run_mid:
  "history (snd (extract_tiles example_env
              ''/data/btrfs/planet/20240102_000000/tiles.btrfs'' ''/data/tiles''
              ''planet'' ''20240102_000000'' example_world)) ! 3 =
    [([''/''], Dir), ([''/'', ''tmp''], Dir), ([''/'', ''data''], Dir),
     ([''/'', ''data'', ''btrfs''], Dir),
     ([''/'', ''data'', ''btrfs'', ''planet''], Dir),
     ([''/'', ''data'', ''btrfs'', ''planet'', ''20240102_000000''], Dir),
     ([''/'', ''data'', ''btrfs'', ''planet'', ''20240102_000000'', ''tiles.btrfs''], File ''image''),
     ([''/'', ''tmp'', ''tmpx''], Dir),
     ([''/'', ''tmp'', ''tmpx'', ''tiles''], Dir),
     ([''/'', ''tmp'', ''tmpx'', ''tiles'', ''0.pbf''], File ''tile0''),
     ([''/'', ''tmp'', ''tmpx'', ''tiles'', ''1.pbf''], File ''tile1''),
     ([''/'', ''tmp'', ''tmpx'', ''metadata.json''], File ''{}''),
     ([''/'', ''data'', ''tiles''], Dir),
     ([''/'', ''data'', ''tiles'', ''planet''], Dir),
     ([''/'', ''data'', ''tiles'', ''planet'', ''20240102_000000''], Dir),
     ([''/'', ''data'', ''tiles'', ''planet'', ''20240102_000000'', ''tiles''], Dir)]"
  by (simp add: example_env_def example_world_def Let_def prog_defs fs_defs extract_defs)

lemma run_mount_fails:
  "(case extract_tiles (example_env\<lparr>mount_run := \<lambda>c. None\<rparr>)
              ''/data/btrfs/planet/20240102_000000/tiles.btrfs'' ''/data/tiles''
              ''planet'' ''20240102_000000'' example_world of
      (r, w) \<Rightarrow> (r, fs w, loop_devices w, mounts w, stdout w)) =
   (Ret False, fs example_world,
    [(''/dev/loop0'', [''/'', ''data'', ''btrfs'', ''planet'', ''20240102_000000'', ''tiles.btrfs''])],
    [], [ErrorLine ''Error during extraction'' (CalledProcessError ''mount'')])"
  by (simp add: example_env_def example_world_def Let_def prog_defs fs_defs extract_defs)

lemma run_umount_fails:
  "(case extract_tiles (example_env\<lparr>umount_ok := False\<rparr>)
              ''/data/btrfs/planet/20240102_000000/tiles.btrfs'' ''/data/tiles''
              ''planet'' ''20240102_000000'' example_world of
      (r, w) \<Rightarrow> (loop_devices w, mounts w, stdout w)) =
   ([(''/dev/loop0'', [''/'', ''data'', ''btrfs'', ''planet'', ''20240102_000000'', ''tiles.btrfs''])],
    [([''/'', ''tmp'', ''tmpx''], ''/dev/loop0'')],
    [ErrorLine ''Warning: Error during unmount'' (CalledProcessError ''umount'')])"
  by (simp add: example_env_def example_world_def Let_def prog_defs fs_defs extract_defs)

lemma run_download_mid:
  "history (snd (download_area (example_env\<lparr>free_bytes := \<lambda>p. 20 * 1024 ^ 3\<rparr>)
                    ''planet'' ''20240101_000000'' ''/data/btrfs'' example_world)) ! 3 =
    [([''/''], Dir), ([''/'', ''tmp''], Dir), ([''/'', ''data''], Dir),
     ([''/'', ''data'', ''btrfs''], Dir),
     ([''/'', ''data'', ''btrfs'', ''planet''], Dir),
     ([''/'', ''data'', ''btrfs'', ''planet'', ''20240102_000000''], Dir),
     ([''/'', ''data'', ''btrfs'', ''planet'', ''20240102_000000'', ''tiles.btrfs''], File ''image''),
     ([''/'', ''data'', ''btrfs'', ''_tmp''], Dir),
     ([''/'', ''data'', ''btrfs'', ''_tmp'', ''tiles.btrfs''], File ''image''),
     ([''/'', ''data'', ''btrfs'', ''planet'', ''20240101_000000''], Dir)]"
  by (simp add: example_env_def example_world_def Let_def prog_defs fs_defs download_area_def
      fetch_and_place_def get_remote_file_size_def size_of_head_def check_disk_space_def gb_overflows_small
      download_file_aria2_def run_aria2c_def run_unpigz_def run_rm_rf_def)

lemma extract_tiles_skip:
  assumes "fs_exists (fs w) (Path btrfs)"
    and "fs_exists (fs w) (pjoin (pjoin (Path output) area) version)"
    and "fs_exists (fs w) (pjoin (pjoin (pjoin (Path output) area) version) ''tiles'')"
  shows "extract_tiles e btrfs output area version w =
    (Ret True, w\<lparr>stdout := stdout w @ [Line (''Tiles already extracted to ''
        @ path_str (pjoin (pjoin (Path output) area) version))]\<rparr>)"
  using assms
  by (simp add: extract_tiles_def Let_def bind_def seq_def path_exists_def ret_def print_def)


text \<open>
  Claim C1 fails on the code. \<open>extract_tiles\<close> copies into the final directory itself,
  and its check for finished work only asks whether \<open>tiles\<close> exists there. The fourth
  state of the file system during an extraction has the final \<open>tiles\<close> directory and
  nothing in it; a run interrupted then leaves that state, and the next call returns
  \<open>True\<close> without copying anything. The same happens after a copy that failed halfway:
  the call after it returns \<open>True\<close> although the second tile and the metadata are
  missing. (\<open>download_area\<close> stages and renames, but creates the final directory
  before the rename: the fourth state of a download has it, empty.)
\<close>

theorem extract_tiles_partial_copy_taken_as_done:
  "map_of (history (snd (extract_tiles example_env
              ''/data/btrfs/planet/20240102_000000/tiles.btrfs'' ''/data/tiles''
              ''planet'' ''20240102_000000'' example_world)) ! 3)
       [''/'', ''data'', ''tiles'', ''planet'', ''20240102_000000'', ''tiles''] = Some Dir
   \<and> fs_children (history (snd (extract_tiles example_env
              ''/data/btrfs/planet/20240102_000000/tiles.btrfs'' ''/data/tiles''
              ''planet'' ''20240102_000000'' example_world)) ! 3)
       [''/'', ''data'', ''tiles'', ''planet'', ''20240102_000000'', ''tiles''] = []
   \<and> extract_tiles example_env
              ''/data/btrfs/planet/20240102_000000/tiles.btrfs'' ''/data/tiles''
              ''planet'' ''20240102_000000''
              (example_world\<lparr>fs := history (snd (extract_tiles example_env
                  ''/data/btrfs/planet/20240102_000000/tiles.btrfs'' ''/data/tiles''
                  ''planet'' ''20240102_000000'' example_world)) ! 3\<rparr>)
       = (Ret True,
          example_world\<lparr>fs := history (snd (extract_tiles example_env
                  ''/data/btrfs/planet/20240102_000000/tiles.btrfs'' ''/data/tiles''
                  ''planet'' ''20240102_000000'' example_world)) ! 3,
             stdout := [Line ''Tiles already extracted to /data/tiles/planet/20240102_000000'']\<rparr>)
   \<and> fst (extract_tiles (example_env\<lparr>rsync_copies := Some 1\<rparr>)
              ''/data/btrfs/planet/20240102_000000/tiles.btrfs'' ''/data/tiles''
              ''planet'' ''20240102_000000'' example_world) = Ret False
   \<and> fst (extract_tiles example_env
              ''/data/btrfs/planet/20240102_000000/tiles.btrfs'' ''/data/tiles''
              ''planet'' ''20240102_000000''
              (snd (extract_tiles (example_env\<lparr>rsync_copies := Some 1\<rparr>)
                 ''/data/btrfs/planet/20240102_000000/tiles.btrfs'' ''/data/tiles''
                 ''planet'' ''20240102_000000'' example_world))) = Ret True
   \<and> map_of (fs (snd (extract_tiles example_env
              ''/data/btrfs/planet/20240102_000000/tiles.btrfs'' ''/data/tiles''
              ''planet'' ''20240102_000000''
              (snd (extract_tiles (example_env\<lparr>rsync_copies := Some 1\<rparr>)
                 ''/data/btrfs/planet/20240102_000000/tiles.btrfs'' ''/data/tiles''
                 ''planet'' ''20240102_000000'' example_world)))))
       [''/'', ''data'', ''tiles'', ''planet'', ''20240102_000000'', ''tiles'', ''1.pbf''] = None
   \<and> map_of (history (snd (download_area (example_env\<lparr>free_bytes := \<lambda>p. 20 * 1024 ^ 3\<rparr>)
                    ''planet'' ''20240101_000000'' ''/data/btrfs'' example_world)) ! 3)
       [''/'', ''data'', ''btrfs'', ''planet'', ''20240101_000000''] = Some Dir
   \<and> fs_children (history (snd (download_area (example_env\<lparr>free_bytes := \<lambda>p. 20 * 1024 ^ 3\<rparr>)
                    ''planet'' ''20240101_000000'' ''/data/btrfs'' example_world)) ! 3)
       [''/'', ''data'', ''btrfs'', ''planet'', ''20240101_000000''] = []"
proof -
  let ?b = "''/data/btrfs/planet/20240102_000000/tiles.btrfs''"
  let ?run = "extract_tiles example_env ?b ''/data/tiles'' ''planet'' ''20240102_000000''"
  let ?bad = "extract_tiles (example_env\<lparr>rsync_copies := Some 1\<rparr>) ?b ''/data/tiles''
                ''planet'' ''20240102_000000'' example_world"
  define mid where "mid = history (snd (?run example_world)) ! 3"
  have mid: "mid = [([''/''], Dir), ([''/'', ''tmp''], Dir), ([''/'', ''data''], Dir),
     ([''/'', ''data'', ''btrfs''], Dir),
     ([''/'', ''data'', ''btrfs'', ''planet''], Dir),
     ([''/'', ''data'', ''btrfs'', ''planet'', ''20240102_000000''], Dir),
     ([''/'', ''data'', ''btrfs'', ''planet'', ''20240102_000000'', ''tiles.btrfs''], File ''image''),
     ([''/'', ''tmp'', ''tmpx''], Dir),
     ([''/'', ''tmp'', ''tmpx'', ''tiles''], Dir),
     ([''/'', ''tmp'', ''tmpx'', ''tiles'', ''0.pbf''], File ''tile0''),
     ([''/'', ''tmp'', ''tmpx'', ''tiles'', ''1.pbf''], File ''tile1''),
     ([''/'', ''tmp'', ''tmpx'', ''metadata.json''], File ''{}''),
     ([''/'', ''data'', ''tiles''], Dir),
     ([''/'', ''data'', ''tiles'', ''planet''], Dir),
     ([''/'', ''data'', ''tiles'', ''planet'', ''20240102_000000''], Dir),
     ([''/'', ''data'', ''tiles'', ''planet'', ''20240102_000000'', ''tiles''], Dir)]"
    unfolding mid_def by (rule run_mid)
  have 1: "map_of mid [''/'', ''data'', ''tiles'', ''planet'', ''20240102_000000'', ''tiles''] = Some Dir"
    unfolding mid by simp
  have 2: "fs_children mid [''/'', ''data'', ''tiles'', ''planet'', ''20240102_000000'', ''tiles''] = []"
    unfolding mid by (simp add: fs_children_def)
  have p: "path_str (pjoin (pjoin (Path ''/data/tiles'') ''planet'') ''20240102_000000'')
            = ''/data/tiles/planet/20240102_000000''"
    by (simp add: fs_defs)
  have 3: "?run (example_world\<lparr>fs := mid\<rparr>)
       = (Ret True, example_world\<lparr>fs := mid,
             stdout := [Line ''Tiles already extracted to /data/tiles/planet/20240102_000000'']\<rparr>)"
  proof -
    have "?run (example_world\<lparr>fs := mid\<rparr>) = (Ret True, (example_world\<lparr>fs := mid\<rparr>)
        \<lparr>stdout := stdout (example_world\<lparr>fs := mid\<rparr>) @ [Line (''Tiles already extracted to ''
            @ path_str (pjoin (pjoin (Path ''/data/tiles'') ''planet'') ''20240102_000000''))]\<rparr>)"
      by (rule extract_tiles_skip) (simp_all add: mid fs_defs)
    then show ?thesis unfolding p by (simp add: example_world_def)
  qed
  obtain r w1 where bad: "?bad = (r, w1)" by (cases ?bad)
  with run_fail have r: "r = Ret False" and w1: "fs w1 =
    [([''/''], Dir), ([''/'', ''tmp''], Dir), ([''/'', ''data''], Dir),
     ([''/'', ''data'', ''btrfs''], Dir),
     ([''/'', ''data'', ''btrfs'', ''planet''], Dir),
     ([''/'', ''data'', ''btrfs'', ''planet'', ''20240102_000000''], Dir),
     ([''/'', ''data'', ''btrfs'', ''planet'', ''20240102_000000'', ''tiles.btrfs''], File ''image''),
     ([''/'', ''data'', ''tiles''], Dir),
     ([''/'', ''data'', ''tiles'', ''planet''], Dir),
     ([''/'', ''data'', ''tiles'', ''planet'', ''20240102_000000''], Dir),
     ([''/'', ''data'', ''tiles'', ''planet'', ''20240102_000000'', ''tiles''], Dir),
     ([''/'', ''data'', ''tiles'', ''planet'', ''20240102_000000'', ''tiles'', ''0.pbf''], File ''tile0'')]"
    by simp_all
  have again: "?run w1 = (Ret True, w1\<lparr>stdout := stdout w1 @ [Line (''Tiles already extracted to ''
            @ path_str (pjoin (pjoin (Path ''/data/tiles'') ''planet'') ''20240102_000000''))]\<rparr>)"
    by (rule extract_tiles_skip) (simp_all add: w1 fs_defs)
  have 4: "fst ?bad = Ret False" using bad r by simp
  have 5: "fst (?run (snd ?bad)) = Ret True" using bad again by simp
  have 6: "map_of (fs (snd (?run (snd ?bad))))
       [''/'', ''data'', ''tiles'', ''planet'', ''20240102_000000'', ''tiles'', ''1.pbf''] = None"
    using bad again w1 by simp
  have 7: "map_of (history (snd (download_area (example_env\<lparr>free_bytes := \<lambda>p. 20 * 1024 ^ 3\<rparr>)
                    ''planet'' ''20240101_000000'' ''/data/btrfs'' example_world)) ! 3)
       [''/'', ''data'', ''btrfs'', ''planet'', ''20240101_000000''] = Some Dir"
    unfolding run_download_mid by simp
  have 8: "fs_children (history (snd (download_area (example_env\<lparr>free_bytes := \<lambda>p. 20 * 1024 ^ 3\<rparr>)
                    ''planet'' ''20240101_000000'' ''/data/btrfs'' example_world)) ! 3)
       [''/'', ''data'', ''btrfs'', ''planet'', ''20240101_000000''] = []"
    unfolding run_download_mid by (simp add: fs_children_def)
  from 1 2 3 4 5 6 7 8 show ?thesis unfolding mid_def by blast
qed

text \<open>
  Claim C5 fails on the code. When \<open>losetup\<close> has attached the image and \<open>mount\<close> then
  fails, \<open>mount_btrfs\<close> raises before \<open>extract_tiles\<close> has a value for \<open>loop_device\<close>,
  so the \<open>finally\<close> block skips \<open>unmount_btrfs\<close>: the function returns \<open>False\<close> and the
  device stays attached. When \<open>umount\<close> fails, \<open>losetup -d\<close> is not run and the device
  stays attached as well. After a copy that failed the device is released.
\<close>

theorem extract_tiles_leaks_loop_device:
  "loop_devices example_world = []
   \<and> fst (extract_tiles (example_env\<lparr>mount_run := \<lambda>c. None\<rparr>)
              ''/data/btrfs/planet/20240102_000000/tiles.btrfs'' ''/data/tiles''
              ''planet'' ''20240102_000000'' example_world) = Ret False
   \<and> loop_devices (snd (extract_tiles (example_env\<lparr>mount_run := \<lambda>c. None\<rparr>)
              ''/data/btrfs/planet/20240102_000000/tiles.btrfs'' ''/data/tiles''
              ''planet'' ''20240102_000000'' example_world))
       = [(''/dev/loop0'', [''/'', ''data'', ''btrfs'', ''planet'', ''20240102_000000'', ''tiles.btrfs''])]
   \<and> loop_devices (snd (extract_tiles (example_env\<lparr>umount_ok := False\<rparr>)
              ''/data/btrfs/planet/20240102_000000/tiles.btrfs'' ''/data/tiles''
              ''planet'' ''20240102_000000'' example_world))
       = [(''/dev/loop0'', [''/'', ''data'', ''btrfs'', ''planet'', ''20240102_000000'', ''tiles.btrfs''])]
   \<and> loop_devices (snd (extract_tiles (example_env\<lparr>rsync_copies := Some 1\<rparr>)
              ''/data/btrfs/planet/20240102_000000/tiles.btrfs'' ''/data/tiles''
              ''planet'' ''20240102_000000'' example_world)) = []"
proof -
  let ?b = "''/data/btrfs/planet/20240102_000000/tiles.btrfs''"
  let ?m = "extract_tiles (example_env\<lparr>mount_run := \<lambda>c. None\<rparr>) ?b ''/data/tiles''
              ''planet'' ''20240102_000000'' example_world"
  let ?u = "extract_tiles (example_env\<lparr>umount_ok := False\<rparr>) ?b ''/data/tiles''
              ''planet'' ''20240102_000000'' example_world"
  let ?c = "extract_tiles (example_env\<lparr>rsync_copies := Some 1\<rparr>) ?b ''/data/tiles''
              ''planet'' ''20240102_000000'' example_world"
  have 0: "loop_devices example_world = []" by (simp add: example_world_def)
  have m: "fst ?m = Ret False \<and> loop_devices (snd ?m)
       = [(''/dev/loop0'', [''/'', ''data'', ''btrfs'', ''planet'', ''20240102_000000'', ''tiles.btrfs''])]"
    using run_mount_fails by (cases ?m) simp
  have u: "loop_devices (snd ?u)
       = [(''/dev/loop0'', [''/'', ''data'', ''btrfs'', ''planet'', ''20240102_000000'', ''tiles.btrfs''])]"
    using run_umount_fails by (cases ?u) simp
  have c: "loop_devices (snd ?c) = []"
    using run_fail by (cases ?c) simp
  from 0 m u c show ?thesis by blast
qed

end
